theory Spec2Isabelle
  imports Complex_Main "HOL-Library.Char_ord" "HOL-Library.List_Lexorder"
begin

section \<open>Data model: frames, series and floating-point cells\<close>

text \<open>
  The component \<^verbatim>\<open>DataTransformation\<close> of
  \<^verbatim>\<open>networksecurity/components/data_transformation.py\<close> works on pandas frames that
  \<^verbatim>\<open>_read_csv\<close> obtains with \<^verbatim>\<open>pd.read_csv(path)\<close>. A column of such a frame has
  dtype int64, float64, bool or object; the dtype category is kept as well, because the
  column selection of \<^verbatim>\<open>_build_transformer\<close> names it.

  A float64 cell is a finite number, an infinity or NaN. Finite numbers are taken as exact
  reals: rounding is not modelled, the special values are.
\<close>

datatype fl = Fin real | PosInf | NegInf | NaN

text \<open>
  A series is tagged with its dtype. A missing cell of an object or category column is
  \<open>None\<close> (pandas stores NaN there); int64 and bool columns have no missing cells.
\<close>

datatype series =
    ObjectS "string option list"
  | CategoryS "string option list"
  | IntS "int list"
  | FloatS "fl list"
  | BoolS "bool list"

datatype dtype = Dobject | Dcategory | Dint64 | Dfloat64 | Dbool

fun dtype_of :: "series \<Rightarrow> dtype" where
  "dtype_of (ObjectS _) = Dobject"
| "dtype_of (CategoryS _) = Dcategory"
| "dtype_of (IntS _) = Dint64"
| "dtype_of (FloatS _) = Dfloat64"
| "dtype_of (BoolS _) = Dbool"

fun len :: "series \<Rightarrow> nat" where
  "len (ObjectS xs) = length xs"
| "len (CategoryS xs) = length xs"
| "len (IntS xs) = length xs"
| "len (FloatS xs) = length xs"
| "len (BoolS xs) = length xs"

text \<open>A frame is its columns in order, each with its name.\<close>

type_synonym frame = "(string \<times> series) list"

definition columns :: "frame \<Rightarrow> string list" where
  "columns X = map fst X"

text \<open>\<^verbatim>\<open>X[c]\<close>: the column called \<open>c\<close>.\<close>

definition getcol :: "frame \<Rightarrow> string \<Rightarrow> series option" where
  "getcol X c = map_of X c"

text \<open>\<^verbatim>\<open>df.drop(columns=[c])\<close>.\<close>

definition drop_column :: "string \<Rightarrow> frame \<Rightarrow> frame" where
  "drop_column c X = filter (\<lambda>(n, s). n \<noteq> c) X"

text \<open>
  A frame read from a CSV file has pairwise different column names (pandas renames
  repeated headers) and columns of one length.
\<close>

definition wf_frame :: "frame \<Rightarrow> bool" where
  "wf_frame X \<longleftrightarrow> distinct (columns X) \<and> (\<forall>(n, s) \<in> set X. \<forall>(m, t) \<in> set X. len s = len t)"

subsection \<open>Selecting columns by dtype\<close>

text \<open>
  \<^verbatim>\<open>DataFrame.select_dtypes(include=[...])\<close> keeps the columns whose dtype falls under
  one of the selectors. The selector \<^verbatim>\<open>"number"\<close> covers the integer and floating
  dtypes and does not cover bool, which is why the source adds \<^verbatim>\<open>"bool"\<close>.
\<close>

datatype selector = Sel_object | Sel_category | Sel_number | Sel_bool

fun selects :: "selector \<Rightarrow> dtype \<Rightarrow> bool" where
  "selects Sel_object d = (d = Dobject)"
| "selects Sel_category d = (d = Dcategory)"
| "selects Sel_number d = (d = Dint64 \<or> d = Dfloat64)"
| "selects Sel_bool d = (d = Dbool)"

definition select_dtypes :: "selector list \<Rightarrow> frame \<Rightarrow> frame" where
  "select_dtypes include X =
     filter (\<lambda>(n, s). list_ex (\<lambda>sel. selects sel (dtype_of s)) include) X"

subsection \<open>Skewness of a numeric column\<close>

fun isfinite :: "fl \<Rightarrow> bool" where
  "isfinite (Fin _) = True"
| "isfinite _ = False"

fun isnan :: "fl \<Rightarrow> bool" where
  "isnan NaN = True"
| "isnan _ = False"

text \<open>The cells of a numeric series as floats (a bool counts as 1 or 0).\<close>

fun to_float :: "series \<Rightarrow> fl list" where
  "to_float (IntS xs) = map (\<lambda>i. Fin (of_int i)) xs"
| "to_float (FloatS xs) = xs"
| "to_float (BoolS xs) = map (\<lambda>b. Fin (if b then 1 else 0)) xs"
| "to_float (ObjectS xs) = []"
| "to_float (CategoryS xs) = []"

text \<open>
  \<^verbatim>\<open>Series.dropna()\<close> removes the NaN cells; the infinities stay
  (pandas does not count them as missing).
\<close>

definition dropna :: "fl list \<Rightarrow> fl list" where
  "dropna vs = filter (\<lambda>v. \<not> isnan v) vs"

text \<open>The finite values of a list of cells, or \<open>None\<close> when a cell is not finite.\<close>

fun finite_values :: "fl list \<Rightarrow> real list option" where
  "finite_values [] = Some []"
| "finite_values (Fin x # vs) = map_option (\<lambda>xs. x # xs) (finite_values vs)"
| "finite_values (_ # vs) = None"

text \<open>
  \<^verbatim>\<open>Series.skew()\<close> is pandas' \<^verbatim>\<open>nanops.nanskew\<close>: with \<open>count\<close> non-missing
  values, their mean and the sums \<open>m2\<close>, \<open>m3\<close> of the squared and cubed deviations (each
  set to zero when below \<open>1e-14\<close> in magnitude), the result is
  \<^verbatim>\<open>(count * (count - 1) ** 0.5 / (count - 2)) * (m3 / m2 ** 1.5)\<close>, replaced by 0 when
  \<open>m2 = 0\<close> and by NaN when \<open>count < 3\<close>. An infinite cell makes the mean infinite and
  its own deviation \<open>inf - inf\<close>, so \<open>m2\<close> and the result are NaN.
\<close>

definition zero_out_fperr :: "real \<Rightarrow> real" where
  "zero_out_fperr x = (if \<bar>x\<bar> < 1 / 10 ^ 14 then 0 else x)"

definition nanskew :: "fl list \<Rightarrow> fl" where
  "nanskew vals =
     (let vs = dropna vals; count = length vs in
      if count < 3 then NaN
      else case finite_values vs of
        None \<Rightarrow> NaN
      | Some xs \<Rightarrow>
          let mean = sum_list xs / real count;
              adjusted = map (\<lambda>x. x - mean) xs;
              m2 = zero_out_fperr (sum_list (map (\<lambda>a. a ^ 2) adjusted));
              m3 = zero_out_fperr (sum_list (map (\<lambda>a. a ^ 3) adjusted))
          in if m2 = 0 then Fin 0
             else Fin ((real count * sqrt (real count - 1) / (real count - 2))
                        * (m3 / m2 powr (3 / 2))))"

text \<open>\<^verbatim>\<open>abs(v) > t\<close> on a float: false for NaN.\<close>

fun abs_exceeds :: "fl \<Rightarrow> real \<Rightarrow> bool" where
  "abs_exceeds (Fin x) t = (\<bar>x\<bar> > t)"
| "abs_exceeds PosInf t = True"
| "abs_exceeds NegInf t = True"
| "abs_exceeds NaN t = False"

text \<open>
  The condition of the comprehension at line 47:
  \<^verbatim>\<open>np.isfinite(X[c]).any() and abs(pd.Series(X[c]).dropna().skew()) > skew_threshold\<close>.
  It is only evaluated for the names in \<open>num_cols\<close>, which are columns of \<open>X\<close>.
\<close>

definition is_skewed :: "real \<Rightarrow> frame \<Rightarrow> string \<Rightarrow> bool" where
  "is_skewed skew_threshold X c =
     (case getcol X c of
        None \<Rightarrow> False
      | Some s \<Rightarrow> list_ex isfinite (to_float s)
                  \<and> abs_exceeds (nanskew (dropna (to_float s))) skew_threshold)"

section \<open>The composite transformation that \<^verbatim>\<open>_build_transformer\<close> assembles\<close>

datatype strategy = Mean | Most_frequent

datatype unknown_policy = Raise_unknown | Ignore_unknown

text \<open>
  \<^verbatim>\<open>DATA_TRANSFORMATION_IMPUTER_PARAMS\<close> is imported from
  \<^verbatim>\<open>networksecurity.constant.training_pipeline\<close>; it is a parameter of the model.
\<close>

record knn_params =
  n_neighbors :: nat
  weights :: string

datatype estimator =
    KNNImputer knn_params
  | SimpleImputer strategy
  | StandardScaler
  | PowerTransformer
  | OneHotEncoder unknown_policy bool

type_synonym pipeline = "(string \<times> estimator) list"

datatype remainder_policy = Drop | Passthrough

record column_transformer =
  transformers :: "(string \<times> pipeline \<times> string list) list"
  remainder :: remainder_policy
  sparse_threshold :: real

text \<open>
  Every failure leaves the component as a \<^verbatim>\<open>NetworkSecurityException\<close> around its
  cause: a message, or the exception that was caught.
\<close>

datatype exn =
    Message string
  | ValueError string
  | NetworkSecurityException exn

definition numeric_knn :: "knn_params \<Rightarrow> pipeline" where
  "numeric_knn params =
     [(''impute_knn'', KNNImputer params), (''scale'', StandardScaler)]"

definition numeric_normal :: pipeline where
  "numeric_normal = [(''impute_mean'', SimpleImputer Mean), (''scale'', StandardScaler)]"

definition numeric_skewed :: pipeline where
  "numeric_skewed =
     [(''impute_mean'', SimpleImputer Mean), (''yeojohnson'', PowerTransformer),
      (''scale'', StandardScaler)]"

definition categorical :: pipeline where
  "categorical =
     [(''impute_mode'', SimpleImputer Most_frequent),
      (''onehot'', OneHotEncoder Ignore_unknown True)]"

text \<open>Lines 43 to 48: the three name lists.\<close>

definition obj_cols :: "frame \<Rightarrow> string list" where
  "obj_cols X = columns (select_dtypes [Sel_object, Sel_category] X)"

definition num_cols :: "frame \<Rightarrow> string list" where
  "num_cols X = columns (select_dtypes [Sel_number, Sel_bool] X)"

definition skew_threshold :: real where
  "skew_threshold = 1"

definition skewed :: "frame \<Rightarrow> string list" where
  "skewed X = filter (\<lambda>c. is_skewed skew_threshold X c) (num_cols X)"

definition regular :: "frame \<Rightarrow> string list" where
  "regular X = filter (\<lambda>c. c \<notin> set (skewed X)) (num_cols X)"

text \<open>
  Lines 71 to 84. The \<^verbatim>\<open>raise\<close> of line 82 is inside the \<^verbatim>\<open>try\<close> of the method, so
  the handler of line 85 wraps it once more.
\<close>

definition build_transformer :: "knn_params \<Rightarrow> frame \<Rightarrow> exn + column_transformer" where
  "build_transformer params X =
     (let transformers =
            (if skewed X \<noteq> [] then [(''num_skewed'', numeric_skewed, skewed X)] else [])
          @ (if regular X \<noteq> [] then [(''num_regular'', numeric_knn params, regular X)] else [])
          @ (if obj_cols X \<noteq> [] then [(''cat'', categorical, obj_cols X)] else [])
      in if transformers = []
         then Inl (NetworkSecurityException (NetworkSecurityException
                (Message ''No valid feature columns found for transformation.'')))
         else Inr \<lparr>transformers = transformers, remainder = Drop, sparse_threshold = 1\<rparr>)"

text \<open>The columns that a composite transformation reads; all others are dropped.\<close>

definition assigned_columns :: "column_transformer \<Rightarrow> string set" where
  "assigned_columns t = (\<Union>(n, p, cs) \<in> set (transformers t). set cs)"

section \<open>The label column\<close>

text \<open>\<^verbatim>\<open>pd.api.types.is_numeric_dtype\<close>: integer, floating and bool dtypes.\<close>

fun is_numeric_dtype :: "series \<Rightarrow> bool" where
  "is_numeric_dtype (IntS _) = True"
| "is_numeric_dtype (FloatS _) = True"
| "is_numeric_dtype (BoolS _) = True"
| "is_numeric_dtype (ObjectS _) = False"
| "is_numeric_dtype (CategoryS _) = False"

text \<open>
  \<^verbatim>\<open>Series.replace(a, b)\<close> for two integers: every cell equal to \<open>a\<close> becomes \<open>b\<close>.
  A string is never equal to a number, and a bool column cannot hold \<open>-1\<close>.
\<close>

fun replace :: "int \<Rightarrow> int \<Rightarrow> series \<Rightarrow> series" where
  "replace a b (IntS xs) = IntS (map (\<lambda>x. if x = a then b else x) xs)"
| "replace a b (FloatS xs) =
     FloatS (map (\<lambda>v. if v = Fin (of_int a) then Fin (of_int b) else v) xs)"
| "replace a b (BoolS xs) = BoolS xs"
| "replace a b (ObjectS xs) = ObjectS xs"
| "replace a b (CategoryS xs) = CategoryS xs"

text \<open>\<^verbatim>\<open>Series.nunique()\<close>: the number of distinct non-missing values.\<close>

fun nunique :: "series \<Rightarrow> nat" where
  "nunique (ObjectS xs) = length (remdups (filter (\<lambda>v. v \<noteq> None) xs))"
| "nunique (CategoryS xs) = length (remdups (filter (\<lambda>v. v \<noteq> None) xs))"
| "nunique (IntS xs) = length (remdups xs)"
| "nunique (FloatS xs) = length (remdups (dropna xs))"
| "nunique (BoolS xs) = length (remdups xs)"

text \<open>Lines 36 to 39.\<close>

definition is_binary_or_numeric_target :: "series \<Rightarrow> bool" where
  "is_binary_or_numeric_target y = (if is_numeric_dtype y then True else nunique y \<le> 2)"

text \<open>
  Lines 100 to 103: the condition looks at the training labels only; both label columns
  are then rewritten.
\<close>

definition normalize_labels :: "series \<Rightarrow> series \<Rightarrow> series \<times> series" where
  "normalize_labels y_train y_test =
     (if is_numeric_dtype y_train then (replace (- 1) 0 y_train, replace (- 1) 0 y_test)
      else (y_train, y_test))"

subsection \<open>The label encoder\<close>

text \<open>
  A cell of a label array as the encoder sees it: a string or a number, the missing value
  being the number NaN. \<^verbatim>\<open>LabelEncoder.fit\<close> stores the distinct labels in sorted order,
  a missing value last; it is only ever fitted on a column of non-numeric dtype, whose cells
  are strings or missing. \<^verbatim>\<open>LabelEncoder.transform\<close> returns the position of each label
  among the classes and raises \<^verbatim>\<open>ValueError\<close> for a label that is not among them; an
  empty input gives an empty result.
\<close>

datatype pyobj = PStr string | PNum fl

fun objects :: "series \<Rightarrow> pyobj list" where
  "objects (ObjectS xs) = map (\<lambda>v. case v of None \<Rightarrow> PNum NaN | Some s \<Rightarrow> PStr s) xs"
| "objects (CategoryS xs) = map (\<lambda>v. case v of None \<Rightarrow> PNum NaN | Some s \<Rightarrow> PStr s) xs"
| "objects (IntS xs) = map PNum (to_float (IntS xs))"
| "objects (FloatS xs) = map PNum xs"
| "objects (BoolS xs) = map PNum (to_float (BoolS xs))"

fun strings_of :: "pyobj list \<Rightarrow> string list" where
  "strings_of [] = []"
| "strings_of (PStr s # vs) = s # strings_of vs"
| "strings_of (PNum x # vs) = strings_of vs"

record label_encoder =
  classes :: "pyobj list"

definition LabelEncoder_fit :: "series \<Rightarrow> label_encoder" where
  "LabelEncoder_fit y =
     \<lparr>classes = map PStr (sort (remdups (strings_of (objects y))))
                 @ (if PNum NaN \<in> set (objects y) then [PNum NaN] else [])\<rparr>"

fun index_of :: "'a list \<Rightarrow> 'a \<Rightarrow> nat option" where
  "index_of [] v = None"
| "index_of (x # xs) v = (if x = v then Some 0 else map_option Suc (index_of xs v))"

fun encode :: "pyobj list \<Rightarrow> pyobj list \<Rightarrow> exn + int list" where
  "encode cls [] = Inr []"
| "encode cls (v # vs) =
     (case index_of cls v of
        None \<Rightarrow> Inl (ValueError ''y contains previously unseen labels'')
      | Some i \<Rightarrow> (case encode cls vs of Inl e \<Rightarrow> Inl e | Inr codes \<Rightarrow> Inr (int i # codes)))"

definition LabelEncoder_transform :: "label_encoder \<Rightarrow> series \<Rightarrow> exn + int list" where
  "LabelEncoder_transform enc y = encode (classes enc) (objects y)"

text \<open>
  The three statements \<^verbatim>\<open>LabelEncoder()\<close>, \<^verbatim>\<open>fit_transform(y_train)\<close> and
  \<^verbatim>\<open>transform(y_test)\<close> of lines 112 to 114 and again of lines 119 to 121.
\<close>

definition encode_labels :: "series \<Rightarrow> series \<Rightarrow> exn + (series \<times> series \<times> label_encoder)" where
  "encode_labels y_train y_test =
     (let y_encoder = LabelEncoder_fit y_train in
      case LabelEncoder_transform y_encoder y_train of
        Inl e \<Rightarrow> Inl e
      | Inr train_codes \<Rightarrow>
          (case LabelEncoder_transform y_encoder y_test of
             Inl e \<Rightarrow> Inl e
           | Inr test_codes \<Rightarrow> Inr (IntS train_codes, IntS test_codes, y_encoder)))"

text \<open>Lines 110 to 122, without the two \<^verbatim>\<open>save_object\<close> calls.\<close>

definition encode_target ::
  "series \<Rightarrow> series \<Rightarrow> exn + (series \<times> series \<times> label_encoder option)" where
  "encode_target y_train y_test =
     (if \<not> is_binary_or_numeric_target y_train then
        (case encode_labels y_train y_test of
           Inl e \<Rightarrow> Inl e
         | Inr (tr, te, enc) \<Rightarrow> Inr (tr, te, Some enc))
      else if \<not> is_numeric_dtype y_train then
        (case encode_labels y_train y_test of
           Inl e \<Rightarrow> Inl e
         | Inr (tr, te, enc) \<Rightarrow> Inr (tr, te, Some enc))
      else Inr (y_train, y_test, None))"

section \<open>Fitting and applying the composite transformation\<close>

text \<open>
  A sub-pipeline receives the selected columns as an array: floats when every selected
  column is numeric, strings (with missing cells) when every selected column has dtype
  object or category. The groups that \<^verbatim>\<open>_build_transformer\<close> forms are of one kind
  each. A test frame whose dtypes differ from the training frame can select columns of
  both kinds for one group; the estimators below reject such an array and an array of
  the wrong kind. Arrays are kept as lists of columns.
\<close>

datatype matrix =
    Numeric "fl list list"
  | Objects "string option list list"
  | Mixed

fun is_object_dtype :: "series \<Rightarrow> bool" where
  "is_object_dtype (ObjectS _) = True"
| "is_object_dtype (CategoryS _) = True"
| "is_object_dtype _ = False"

fun strings :: "series \<Rightarrow> string option list" where
  "strings (ObjectS xs) = xs"
| "strings (CategoryS xs) = xs"
| "strings _ = []"

definition as_matrix :: "series list \<Rightarrow> matrix" where
  "as_matrix cols =
     (if list_all is_numeric_dtype cols then Numeric (map to_float cols)
      else if list_all is_object_dtype cols then Objects (map strings cols)
      else Mixed)"

fun and_then :: "'e + 'a \<Rightarrow> ('a \<Rightarrow> 'e + 'b) \<Rightarrow> 'e + 'b" where
  "and_then (Inl e) f = Inl e"
| "and_then (Inr x) f = f x"

subsection \<open>Input validation\<close>

text \<open>
  Every estimator validates its input with \<^verbatim>\<open>check_array\<close>: an infinite cell, an array
  without rows and an array without columns raise \<^verbatim>\<open>ValueError\<close>; NaN is accepted by all
  estimators used here. \<^verbatim>\<open>transform\<close> also compares the number of columns with the one
  seen by \<^verbatim>\<open>fit\<close>.
\<close>

fun n_samples :: "'a list list \<Rightarrow> nat" where
  "n_samples [] = 0"
| "n_samples (c # cs) = length c"

definition check_shape :: "'a list list \<Rightarrow> exn + 'a list list" where
  "check_shape cols =
     (if cols = [] then Inl (ValueError ''Found array with 0 feature(s)'')
      else if n_samples cols = 0 then Inl (ValueError ''Found array with 0 sample(s)'')
      else Inr cols)"

definition check_array :: "fl list list \<Rightarrow> exn + fl list list" where
  "check_array cols =
     (if list_ex (\<lambda>c. list_ex (\<lambda>v. v = PosInf \<or> v = NegInf) c) cols
      then Inl (ValueError ''Input contains infinity'')
      else check_shape cols)"

definition check_n_features :: "nat \<Rightarrow> 'a list list \<Rightarrow> exn + 'a list list" where
  "check_n_features n cols =
     (if length cols = n then Inr cols
      else Inl (ValueError ''X has a different number of features than seen in fit''))"

subsection \<open>Numeric routines of the library that are not modelled\<close>

text \<open>
  Two numeric routines of scikit-learn stay parameters of the model: the value that the
  nearest-neighbour imputer computes for a missing cell (from its parameters, the
  training array, the row of the cell and the index of its column), and the exponent that
  \<^verbatim>\<open>PowerTransformer\<close> finds for a column by maximising a likelihood. Whatever they
  return is a finite number.
\<close>

record numerics =
  knn_value :: "knn_params \<Rightarrow> fl list list \<Rightarrow> fl list \<Rightarrow> nat \<Rightarrow> real"
  yeo_johnson_lambda :: "real list \<Rightarrow> real"

subsection \<open>The numeric estimators, column by column\<close>

fun finites :: "fl list \<Rightarrow> real list" where
  "finites [] = []"
| "finites (Fin x # vs) = x # finites vs"
| "finites (_ # vs) = finites vs"

definition mean :: "real list \<Rightarrow> real" where
  "mean xs = sum_list xs / real (length xs)"

text \<open>\<^verbatim>\<open>SimpleImputer(strategy="mean")\<close>: the mean of the observed cells, NaN without any.\<close>

definition mean_statistic :: "fl list \<Rightarrow> fl" where
  "mean_statistic c = (if finites c = [] then NaN else Fin (mean (finites c)))"

definition fill :: "fl \<Rightarrow> fl list \<Rightarrow> fl list" where
  "fill s c = map (\<lambda>v. if isnan v then s else v) c"

text \<open>
  \<^verbatim>\<open>StandardScaler\<close>: mean and standard deviation (divisor \<open>n\<close>) of the observed cells;
  a deviation of zero is replaced by one. A missing cell stays missing.
\<close>

definition scaler_statistics :: "fl list \<Rightarrow> fl \<times> fl" where
  "scaler_statistics c =
     (let xs = finites c in
      if xs = [] then (NaN, NaN)
      else let m = mean xs; sd = sqrt (mean (map (\<lambda>x. (x - m) ^ 2) xs))
           in (Fin m, Fin (if sd = 0 then 1 else sd)))"

fun scale_cell :: "fl \<times> fl \<Rightarrow> fl \<Rightarrow> fl" where
  "scale_cell (Fin m, Fin sd) (Fin x) = Fin ((x - m) / sd)"
| "scale_cell _ _ = NaN"

definition scale :: "fl \<times> fl \<Rightarrow> fl list \<Rightarrow> fl list" where
  "scale st c = map (scale_cell st) c"

text \<open>The Yeo-Johnson transform with exponent \<open>lmbda\<close>.\<close>

definition yeo_johnson :: "real \<Rightarrow> real \<Rightarrow> real" where
  "yeo_johnson lmbda x =
     (if x \<ge> 0 then (if lmbda = 0 then ln (x + 1) else ((x + 1) powr lmbda - 1) / lmbda)
      else (if lmbda = 2 then - ln (1 - x)
            else - ((1 - x) powr (2 - lmbda) - 1) / (2 - lmbda)))"

fun power_cell :: "real \<Rightarrow> fl \<Rightarrow> fl" where
  "power_cell lmbda (Fin x) = Fin (yeo_johnson lmbda x)"
| "power_cell lmbda v = v"

definition power :: "real \<Rightarrow> fl list \<Rightarrow> fl list" where
  "power lmbda c = map (power_cell lmbda) c"

text \<open>The nearest-neighbour imputer fills the missing cells of a row.\<close>

definition row_at :: "'a list list \<Rightarrow> nat \<Rightarrow> 'a list" where
  "row_at cols i = map (\<lambda>c. c ! i) cols"

definition knn_fill ::
  "numerics \<Rightarrow> knn_params \<Rightarrow> fl list list \<Rightarrow> fl list list \<Rightarrow> nat \<Rightarrow> fl list" where
  "knn_fill lib params fit_X cols j =
     map (\<lambda>i. if isnan (cols ! j ! i) then Fin (knn_value lib params fit_X (row_at cols i) j)
              else cols ! j ! i)
         [0 ..< length (cols ! j)]"

definition observed :: "fl list \<Rightarrow> bool" where
  "observed c = list_ex (\<lambda>v. \<not> isnan v) c"

subsection \<open>The categorical estimators, column by column\<close>

text \<open>
  \<^verbatim>\<open>SimpleImputer(strategy="most_frequent")\<close>: the most frequent observed value, the
  smallest one among several, and the missing value when nothing is observed.
\<close>

definition present :: "string option list \<Rightarrow> string list" where
  "present c = concat (map (\<lambda>v. case v of None \<Rightarrow> [] | Some s \<Rightarrow> [s]) c)"

definition most_frequent :: "string option list \<Rightarrow> string option" where
  "most_frequent c =
     (let vals = present c;
          best = fold max (map (count_list vals) vals) 0
      in List.find (\<lambda>s. count_list vals s = best) (sort (remdups vals)))"

definition fill_mode :: "string option \<Rightarrow> string option list \<Rightarrow> string option list" where
  "fill_mode s c = map (\<lambda>v. case v of None \<Rightarrow> s | Some x \<Rightarrow> Some x) c"

text \<open>
  \<^verbatim>\<open>OneHotEncoder\<close>: the categories of a column are its distinct values in sorted order,
  a missing value last. A cell is encoded by one indicator column for each category.
\<close>

definition categories_of :: "string option list \<Rightarrow> string option list" where
  "categories_of c =
     map Some (sort (remdups (present c))) @ (if None \<in> set c then [None] else [])"

definition indicators :: "string option list \<Rightarrow> string option list \<Rightarrow> fl list list" where
  "indicators cats c = map (\<lambda>k. map (\<lambda>v. Fin (if v = k then 1 else 0)) c) cats"

definition has_unknown :: "string option list \<Rightarrow> string option list \<Rightarrow> bool" where
  "has_unknown cats c = list_ex (\<lambda>v. v \<notin> set cats) c"

subsection \<open>The estimators on whole arrays\<close>

text \<open>
  Both imputers discard the columns that had no observed cell when they were fitted:
  the mean imputer and the most-frequent imputer those whose statistic is missing, the
  nearest-neighbour imputer those outside its mask of valid columns.
\<close>

definition keep :: "bool list \<Rightarrow> 'a list \<Rightarrow> 'a list" where
  "keep valid_mask cols = map snd (filter fst (zip valid_mask cols))"

definition mean_impute :: "fl list \<Rightarrow> fl list list \<Rightarrow> fl list list" where
  "mean_impute stats X =
     map (\<lambda>(s, c). fill s c) (filter (\<lambda>(s, c). \<not> isnan s) (zip stats X))"

definition knn_impute ::
  "numerics \<Rightarrow> knn_params \<Rightarrow> bool list \<Rightarrow> fl list list \<Rightarrow> fl list list \<Rightarrow> fl list list" where
  "knn_impute lib params valid_mask fit_X X =
     keep valid_mask (map (knn_fill lib params fit_X X) [0 ..< length X])"

definition standardize :: "(fl \<times> fl) list \<Rightarrow> fl list list \<Rightarrow> fl list list" where
  "standardize stats X = map (\<lambda>(st, c). scale st c) (zip stats X)"

definition power_transform :: "real list \<Rightarrow> fl list list \<Rightarrow> fl list list" where
  "power_transform lambdas X = map (\<lambda>(l, c). power l c) (zip lambdas X)"

definition mode_impute ::
  "string option list \<Rightarrow> string option list list \<Rightarrow> string option list list" where
  "mode_impute stats X =
     map (\<lambda>(s, c). fill_mode s c) (filter (\<lambda>(s, c). s \<noteq> None) (zip stats X))"

definition onehot_encode ::
  "string option list list \<Rightarrow> string option list list \<Rightarrow> fl list list" where
  "onehot_encode cats X = concat (map (\<lambda>(k, c). indicators k c) (zip cats X))"

subsection \<open>Fitted estimators\<close>

datatype fitted_estimator =
    KNNImputer_fitted knn_params "bool list" "fl list list"
  | SimpleImputer_mean_fitted "fl list"
  | SimpleImputer_mode_fitted "string option list"
  | StandardScaler_fitted "(fl \<times> fl) list"
  | PowerTransformer_fitted "real list" "(fl \<times> fl) list"
  | OneHotEncoder_fitted unknown_policy "string option list list"

fun fit_estimator :: "numerics \<Rightarrow> estimator \<Rightarrow> matrix \<Rightarrow> exn + fitted_estimator" where
  "fit_estimator lib (SimpleImputer Mean) (Numeric cols) =
     and_then (check_array cols) (\<lambda>X. Inr (SimpleImputer_mean_fitted (map mean_statistic X)))"
| "fit_estimator lib (SimpleImputer Mean) _ =
     Inl (ValueError ''Cannot use mean strategy with non-numeric data'')"
| "fit_estimator lib (KNNImputer params) (Numeric cols) =
     and_then (check_array cols) (\<lambda>X. Inr (KNNImputer_fitted params (map observed X) X))"
| "fit_estimator lib (KNNImputer params) _ =
     Inl (ValueError ''could not convert string to float'')"
| "fit_estimator lib StandardScaler (Numeric cols) =
     and_then (check_array cols) (\<lambda>X. Inr (StandardScaler_fitted (map scaler_statistics X)))"
| "fit_estimator lib StandardScaler _ =
     Inl (ValueError ''could not convert string to float'')"
| "fit_estimator lib PowerTransformer (Numeric cols) =
     and_then (check_array cols) (\<lambda>X.
       let lambdas = map (\<lambda>c. yeo_johnson_lambda lib (finites c)) X
       in Inr (PowerTransformer_fitted lambdas
                 (map scaler_statistics (power_transform lambdas X))))"
| "fit_estimator lib PowerTransformer _ =
     Inl (ValueError ''could not convert string to float'')"
| "fit_estimator lib (SimpleImputer Most_frequent) (Objects cols) =
     and_then (check_shape cols) (\<lambda>X. Inr (SimpleImputer_mode_fitted (map most_frequent X)))"
| "fit_estimator lib (SimpleImputer Most_frequent) _ =
     Inl (ValueError ''unsupported array for the most_frequent strategy'')"
| "fit_estimator lib (OneHotEncoder policy sparse) (Objects cols) =
     and_then (check_shape cols) (\<lambda>X. Inr (OneHotEncoder_fitted policy (map categories_of X)))"
| "fit_estimator lib (OneHotEncoder policy sparse) _ =
     Inl (ValueError ''unsupported array for the encoder'')"

fun transform_estimator :: "numerics \<Rightarrow> fitted_estimator \<Rightarrow> matrix \<Rightarrow> exn + matrix" where
  "transform_estimator lib (SimpleImputer_mean_fitted stats) (Numeric cols) =
     and_then (check_array cols) (\<lambda>X.
     and_then (check_n_features (length stats) X) (\<lambda>X.
       Inr (Numeric (mean_impute stats X))))"
| "transform_estimator lib (SimpleImputer_mean_fitted stats) _ =
     Inl (ValueError ''could not convert string to float'')"
| "transform_estimator lib (KNNImputer_fitted params valid_mask fit_X) (Numeric cols) =
     and_then (check_array cols) (\<lambda>X.
     and_then (check_n_features (length valid_mask) X) (\<lambda>X.
       Inr (Numeric (knn_impute lib params valid_mask fit_X X))))"
| "transform_estimator lib (KNNImputer_fitted params valid_mask fit_X) _ =
     Inl (ValueError ''could not convert string to float'')"
| "transform_estimator lib (StandardScaler_fitted stats) (Numeric cols) =
     and_then (check_array cols) (\<lambda>X.
     and_then (check_n_features (length stats) X) (\<lambda>X.
       Inr (Numeric (standardize stats X))))"
| "transform_estimator lib (StandardScaler_fitted stats) _ =
     Inl (ValueError ''could not convert string to float'')"
| "transform_estimator lib (PowerTransformer_fitted lambdas stats) (Numeric cols) =
     and_then (check_array cols) (\<lambda>X.
     and_then (check_n_features (length lambdas) X) (\<lambda>X.
       Inr (Numeric (standardize stats (power_transform lambdas X)))))"
| "transform_estimator lib (PowerTransformer_fitted lambdas stats) _ =
     Inl (ValueError ''could not convert string to float'')"
| "transform_estimator lib (SimpleImputer_mode_fitted stats) (Objects cols) =
     and_then (check_shape cols) (\<lambda>X.
     and_then (check_n_features (length stats) X) (\<lambda>X.
       Inr (Objects (mode_impute stats X))))"
| "transform_estimator lib (SimpleImputer_mode_fitted stats) _ =
     Inl (ValueError ''unsupported array for the most_frequent strategy'')"
| "transform_estimator lib (OneHotEncoder_fitted policy cats) (Objects cols) =
     and_then (check_shape cols) (\<lambda>X.
     and_then (check_n_features (length cats) X) (\<lambda>X.
       if policy = Raise_unknown \<and> list_ex (\<lambda>(k, c). has_unknown k c) (zip cats X)
       then Inl (ValueError ''Found unknown categories'')
       else Inr (Numeric (onehot_encode cats X))))"
| "transform_estimator lib (OneHotEncoder_fitted policy cats) _ =
     Inl (ValueError ''unsupported array for the encoder'')"

subsection \<open>Pipelines and the column transformer\<close>

text \<open>
  \<^verbatim>\<open>ColumnTransformer.fit\<close> runs \<^verbatim>\<open>fit_transform\<close> of every sub-pipeline on its
  columns of the frame: each step is fitted on the output of the steps before it.
\<close>

type_synonym fitted_pipeline = "(string \<times> fitted_estimator) list"

fun fit_transform_pipeline ::
  "numerics \<Rightarrow> pipeline \<Rightarrow> matrix \<Rightarrow> exn + (fitted_pipeline \<times> matrix)" where
  "fit_transform_pipeline lib [] X = Inr ([], X)"
| "fit_transform_pipeline lib ((name, est) # steps) X =
     and_then (fit_estimator lib est X) (\<lambda>f.
     and_then (transform_estimator lib f X) (\<lambda>Xt.
     and_then (fit_transform_pipeline lib steps Xt) (\<lambda>(fs, out).
       Inr ((name, f) # fs, out))))"

fun transform_pipeline :: "numerics \<Rightarrow> fitted_pipeline \<Rightarrow> matrix \<Rightarrow> exn + matrix" where
  "transform_pipeline lib [] X = Inr X"
| "transform_pipeline lib ((name, f) # fs) X =
     and_then (transform_estimator lib f X) (\<lambda>Xt. transform_pipeline lib fs Xt)"

text \<open>Selecting the columns of a group by name; a name that the frame lacks is an error.\<close>

fun select_columns :: "frame \<Rightarrow> string list \<Rightarrow> exn + series list" where
  "select_columns X [] = Inr []"
| "select_columns X (c # cs) =
     (case getcol X c of
        None \<Rightarrow> Inl (ValueError ''columns are missing'')
      | Some s \<Rightarrow> and_then (select_columns X cs) (\<lambda>ss. Inr (s # ss)))"

text \<open>The output of a sub-pipeline as a block of float columns.\<close>

fun block :: "matrix \<Rightarrow> exn + fl list list" where
  "block (Numeric cols) = Inr cols"
| "block _ = Inl (ValueError ''could not convert string to float'')"

record fitted_column_transformer =
  fitted_transformers :: "(string \<times> fitted_pipeline \<times> string list) list"

fun fit_groups ::
  "numerics \<Rightarrow> (string \<times> pipeline \<times> string list) list \<Rightarrow> frame
     \<Rightarrow> exn + (string \<times> fitted_pipeline \<times> string list) list" where
  "fit_groups lib [] X = Inr []"
| "fit_groups lib ((name, p, cols) # gs) X =
     and_then (select_columns X cols) (\<lambda>sel.
     and_then (fit_transform_pipeline lib p (as_matrix sel)) (\<lambda>(fp, out).
     and_then (block out) (\<lambda>b.
     and_then (fit_groups lib gs X) (\<lambda>fgs. Inr ((name, fp, cols) # fgs)))))"

definition fit :: "numerics \<Rightarrow> column_transformer \<Rightarrow> frame \<Rightarrow> exn + fitted_column_transformer" where
  "fit lib ct X =
     and_then (fit_groups lib (transformers ct) X) (\<lambda>fgs.
       Inr \<lparr>fitted_transformers = fgs\<rparr>)"

text \<open>
  \<^verbatim>\<open>transform\<close> puts the blocks of the groups side by side, in the order of the groups.
  Whether the result is held sparse or dense does not change its cells; lines 128 to 131
  make it dense in either case.
\<close>

fun transform_groups ::
  "numerics \<Rightarrow> (string \<times> fitted_pipeline \<times> string list) list \<Rightarrow> frame
     \<Rightarrow> exn + fl list list" where
  "transform_groups lib [] X = Inr []"
| "transform_groups lib ((name, fp, cols) # gs) X =
     and_then (select_columns X cols) (\<lambda>sel.
     and_then (transform_pipeline lib fp (as_matrix sel)) (\<lambda>out.
     and_then (block out) (\<lambda>b.
     and_then (transform_groups lib gs X) (\<lambda>bs. Inr (b @ bs)))))"

definition transform :: "numerics \<Rightarrow> fitted_column_transformer \<Rightarrow> frame \<Rightarrow> exn + fl list list" where
  "transform lib fct X = transform_groups lib (fitted_transformers fct) X"

section \<open>The method \<^verbatim>\<open>run\<close>\<close>

text \<open>
  \<^verbatim>\<open>TARGET_COLUMN\<close> and \<^verbatim>\<open>DATA_TRANSFORMATION_IMPUTER_PARAMS\<close> are constants of a
  module that is not part of the sources at hand, and the three output paths come from
  the configuration object; all are parameters.
\<close>

record constants =
  TARGET_COLUMN :: string
  DATA_TRANSFORMATION_IMPUTER_PARAMS :: knn_params

record config =
  transformed_object_file_path :: string
  transformed_train_file_path :: string
  transformed_test_file_path :: string

text \<open>
  What \<^verbatim>\<open>save_object\<close> and \<^verbatim>\<open>save_numpy_array_data\<close> write: a label encoder, a
  fitted transformation, or an array made of the transformed feature columns and the label
  column (\<^verbatim>\<open>np.c_[X_t, y.reshape(-1, 1)]\<close>, the label being the last column).
\<close>

datatype saved =
    Saved_encoder label_encoder
  | Saved_transformer fitted_column_transformer
  | Saved_array "fl list list" series

record artifact =
  artifact_object_file_path :: string
  artifact_train_file_path :: string
  artifact_test_file_path :: string

text \<open>
  \<^verbatim>\<open>run\<close> on the two frames that \<^verbatim>\<open>_read_csv\<close> returned. The result is the artifact
  or the exception, together with the files written up to that point, in order. Every
  exception raised inside the method is wrapped by the handler of line 146.
\<close>

definition wrap :: "exn + 'a \<Rightarrow> exn + 'a" where
  "wrap r = (case r of Inl e \<Rightarrow> Inl (NetworkSecurityException e) | Inr x \<Rightarrow> Inr x)"

definition encoder_path :: string where
  "encoder_path = ''final_model/label_encoder.pkl''"

definition preprocessor_path :: string where
  "preprocessor_path = ''final_model/preprocessor.pkl''"

definition run ::
  "constants \<Rightarrow> config \<Rightarrow> numerics \<Rightarrow> frame \<Rightarrow> frame
     \<Rightarrow> (exn + artifact) \<times> (string \<times> saved) list" where
  "run k cfg lib train_df test_df =
     (case (getcol train_df (TARGET_COLUMN k), getcol test_df (TARGET_COLUMN k)) of
        (Some y_train0, Some y_test0) \<Rightarrow>
          (let (y_train1, y_test1) = normalize_labels y_train0 y_test0;
               X_train = drop_column (TARGET_COLUMN k) train_df;
               X_test = drop_column (TARGET_COLUMN k) test_df
           in case build_transformer (DATA_TRANSFORMATION_IMPUTER_PARAMS k) X_train of
                Inl e \<Rightarrow> (Inl (NetworkSecurityException e), [])
              | Inr preprocessor \<Rightarrow>
                  (case encode_target y_train1 y_test1 of
                     Inl e \<Rightarrow> (Inl (NetworkSecurityException e), [])
                   | Inr (y_train, y_test, y_encoder) \<Rightarrow>
                       (let written = (case y_encoder of
                                         None \<Rightarrow> []
                                       | Some enc \<Rightarrow> [(encoder_path, Saved_encoder enc)])
                        in case and_then (fit lib preprocessor X_train) (\<lambda>preprocessor_fitted.
                                and_then (transform lib preprocessor_fitted X_train) (\<lambda>X_train_t.
                                and_then (transform lib preprocessor_fitted X_test) (\<lambda>X_test_t.
                                  Inr (preprocessor_fitted, X_train_t, X_test_t)))) of
                             Inl e \<Rightarrow> (Inl (NetworkSecurityException e), written)
                           | Inr (preprocessor_fitted, X_train_t, X_test_t) \<Rightarrow>
                               (Inr \<lparr>artifact_object_file_path = transformed_object_file_path cfg,
                                     artifact_train_file_path = transformed_train_file_path cfg,
                                     artifact_test_file_path = transformed_test_file_path cfg\<rparr>,
                                written @
                                [(transformed_train_file_path cfg, Saved_array X_train_t y_train),
                                 (transformed_test_file_path cfg, Saved_array X_test_t y_test),
                                 (transformed_object_file_path cfg,
                                    Saved_transformer preprocessor_fitted),
                                 (preprocessor_path, Saved_transformer preprocessor_fitted)]))))
      | _ \<Rightarrow> (Inl (NetworkSecurityException (NetworkSecurityException
                 (Message (''Missing target column '' @ TARGET_COLUMN k @ '' in input files.'')))),
              []))"

subsection \<open>What a run has written\<close>


fun saved_encoders :: "(string \<times> saved) list \<Rightarrow> label_encoder list" where
  "saved_encoders [] = []"
| "saved_encoders ((p, Saved_encoder e) # w) = e # saved_encoders w"
| "saved_encoders (_ # w) = saved_encoders w"

fun saved_arrays :: "(string \<times> saved) list \<Rightarrow> (fl list list \<times> series) list" where
  "saved_arrays [] = []"
| "saved_arrays ((p, Saved_array X y) # w) = (X, y) # saved_arrays w"
| "saved_arrays (_ # w) = saved_arrays w"

subsection \<open>Columns of a frame by name\<close>

text \<open>A numeric column with some non-missing cell, and the number of distinct non-missing
  values of a column.\<close>

definition column_observed :: "frame \<Rightarrow> string \<Rightarrow> bool" where
  "column_observed X c = (case getcol X c of None \<Rightarrow> False | Some s \<Rightarrow> observed (to_float s))"

definition column_nunique :: "frame \<Rightarrow> string \<Rightarrow> nat" where
  "column_nunique X c = (case getcol X c of None \<Rightarrow> 0 | Some s \<Rightarrow> nunique s)"

section \<open>Example frames\<close>

text \<open>
  A training frame of ten rows: an integer column with a long right tail, a float column
  with one missing cell, a string column and a bool column.
\<close>

definition example_params :: knn_params where
  "example_params = \<lparr>n_neighbors = 3, weights = ''uniform''\<rparr>"

definition example_X :: frame where
  "example_X =
     [(''duration'', IntS [8, 0, 2, 2, 3, 3, 3, 3, 3, 3]),
      (''rate'', FloatS [Fin 1, Fin 2, Fin 3, NaN, Fin 1, Fin 2, Fin 3, Fin 1, Fin 2, Fin 3]),
      (''proto'', ObjectS [Some ''tcp'', Some ''udp'', Some ''tcp'', None, Some ''tcp'',
                           Some ''icmp'', Some ''tcp'', Some ''udp'', Some ''tcp'', Some ''tcp'']),
      (''secure'', BoolS [True, False, True, False, True, False, True, False, True, False])]"

definition example_transformer :: column_transformer where
  "example_transformer =
     \<lparr>transformers =
        [(''num_skewed'', numeric_skewed, [''duration'']),
         (''num_regular'', numeric_knn example_params, [''rate'', ''secure'']),
         (''cat'', categorical, [''proto''])],
      remainder = Drop, sparse_threshold = 1\<rparr>"

definition no_feature_columns :: exn where
  "no_feature_columns =
     NetworkSecurityException (NetworkSecurityException
       (Message ''No valid feature columns found for transformation.''))"

text \<open>
  Small frames for a whole run: a float feature with a missing cell, a string feature,
  and the label \<^verbatim>\<open>Result\<close>, once as integers with the sentinel \<open>-1\<close> and once as strings.
  The test frames hold a protocol and a label that the training frames lack.
\<close>

definition example_numerics :: numerics where
  "example_numerics = \<lparr>knn_value = (\<lambda>params fit_X row j. 0), yeo_johnson_lambda = (\<lambda>xs. 1)\<rparr>"

definition example_constants :: constants where
  "example_constants =
     \<lparr>TARGET_COLUMN = ''Result'', DATA_TRANSFORMATION_IMPUTER_PARAMS = example_params\<rparr>"

definition example_config :: config where
  "example_config =
     \<lparr>transformed_object_file_path = ''artifacts/preprocessing.pkl'',
      transformed_train_file_path = ''artifacts/train.npy'',
      transformed_test_file_path = ''artifacts/test.npy''\<rparr>"

definition example_artifact :: artifact where
  "example_artifact =
     \<lparr>artifact_object_file_path = ''artifacts/preprocessing.pkl'',
      artifact_train_file_path = ''artifacts/train.npy'',
      artifact_test_file_path = ''artifacts/test.npy''\<rparr>"

definition example_train :: frame where
  "example_train =
     [(''rate'', FloatS [Fin 1, Fin 2, NaN]),
      (''proto'', ObjectS [Some ''tcp'', Some ''udp'', Some ''tcp'']),
      (''Result'', IntS [- 1, 1, - 1])]"

definition example_test :: frame where
  "example_test =
     [(''rate'', FloatS [Fin 3, NaN]),
      (''proto'', ObjectS [Some ''icmp'', Some ''tcp'']),
      (''Result'', IntS [1, - 1])]"


definition example_train_str :: frame where
  "example_train_str =
     [(''rate'', FloatS [Fin 1, Fin 2, NaN]),
      (''proto'', ObjectS [Some ''tcp'', Some ''udp'', Some ''tcp'']),
      (''Result'', ObjectS [Some ''good'', Some ''bad'', Some ''good''])]"

definition example_test_str :: frame where
  "example_test_str =
     [(''rate'', FloatS [Fin 3, NaN]),
      (''proto'', ObjectS [Some ''icmp'', Some ''tcp'']),
      (''Result'', ObjectS [Some ''bad'', Some ''good''])]"

definition example_test_unseen :: frame where
  "example_test_unseen =
     [(''rate'', FloatS [Fin 3, NaN]),
      (''proto'', ObjectS [Some ''icmp'', Some ''tcp'']),
      (''Result'', ObjectS [Some ''bad'', Some ''ugly''])]"

text \<open>A training frame with a numeric column that has no observed cell.\<close>

definition example_empty_column :: frame where
  "example_empty_column =
     [(''a'', FloatS [Fin 1, Fin 2]),
      (''b'', FloatS [NaN, NaN]),
      (''c'', ObjectS [Some ''x'', Some ''y''])]"

section \<open>Column profiling\<close>

lemma columns_select_subset: "set (columns (select_dtypes sel X)) \<subseteq> set (columns X)"
  by (auto simp: columns_def select_dtypes_def)

lemma skewed_regular_disjoint: "set (skewed X) \<inter> set (regular X) = {}"
  by (auto simp: regular_def)

lemma skewed_regular_union: "set (skewed X) \<union> set (regular X) = set (num_cols X)"
  by (auto simp: regular_def skewed_def)

lemma dtype_selected:
  "list_ex (\<lambda>sel. selects sel d) [Sel_object, Sel_category]
   \<or> list_ex (\<lambda>sel. selects sel d) [Sel_number, Sel_bool]"
  by (cases d) simp_all

lemma dtype_selected_once:
  "\<not> (list_ex (\<lambda>sel. selects sel d) [Sel_object, Sel_category]
      \<and> list_ex (\<lambda>sel. selects sel d) [Sel_number, Sel_bool])"
  by (cases d) simp_all

lemma num_obj_union: "set (num_cols X) \<union> set (obj_cols X) = set (columns X)"
proof
  show "set (num_cols X) \<union> set (obj_cols X) \<subseteq> set (columns X)"
    using columns_select_subset by (auto simp: num_cols_def obj_cols_def)
next
  show "set (columns X) \<subseteq> set (num_cols X) \<union> set (obj_cols X)"
  proof
    fix c assume "c \<in> set (columns X)"
    then obtain s where cs: "(c, s) \<in> set X" by (auto simp: columns_def)
    from dtype_selected [of "dtype_of s"] show "c \<in> set (num_cols X) \<union> set (obj_cols X)"
    proof
      assume "list_ex (\<lambda>sel. selects sel (dtype_of s)) [Sel_object, Sel_category]"
      with cs have "(c, s) \<in> set (select_dtypes [Sel_object, Sel_category] X)"
        by (simp add: select_dtypes_def)
      then have "c \<in> set (obj_cols X)" unfolding obj_cols_def columns_def by force
      then show ?thesis by simp
    next
      assume "list_ex (\<lambda>sel. selects sel (dtype_of s)) [Sel_number, Sel_bool]"
      with cs have "(c, s) \<in> set (select_dtypes [Sel_number, Sel_bool] X)"
        by (simp add: select_dtypes_def)
      then have "c \<in> set (num_cols X)" unfolding num_cols_def columns_def by force
      then show ?thesis by simp
    qed
  qed
qed

lemma num_obj_disjoint:
  assumes "distinct (columns X)"
  shows "set (num_cols X) \<inter> set (obj_cols X) = {}"
proof (rule ccontr)
  assume "set (num_cols X) \<inter> set (obj_cols X) \<noteq> {}"
  then obtain c where n: "c \<in> set (num_cols X)" and ob: "c \<in> set (obj_cols X)" by auto
  from n obtain s where s: "(c, s) \<in> set X"
      "list_ex (\<lambda>sel. selects sel (dtype_of s)) [Sel_number, Sel_bool]"
    unfolding num_cols_def columns_def select_dtypes_def by auto
  from ob obtain t where t: "(c, t) \<in> set X"
      "list_ex (\<lambda>sel. selects sel (dtype_of t)) [Sel_object, Sel_category]"
    unfolding obj_cols_def columns_def select_dtypes_def by auto
  from assms s(1) t(1) have "s = t"
    unfolding columns_def by (meson eq_key_imp_eq_value)
  with s(2) t(2) dtype_selected_once [of "dtype_of s"] show False by blast
qed

lemma build_transformer_assigned:
  assumes "build_transformer params X = Inr t"
  shows "assigned_columns t = set (skewed X) \<union> set (regular X) \<union> set (obj_cols X)"
proof -
  from assms have "transformers t =
        (if skewed X \<noteq> [] then [(''num_skewed'', numeric_skewed, skewed X)] else [])
      @ (if regular X \<noteq> [] then [(''num_regular'', numeric_knn params, regular X)] else [])
      @ (if obj_cols X \<noteq> [] then [(''cat'', categorical, obj_cols X)] else [])"
    unfolding build_transformer_def Let_def by (auto split: if_splits)
  then show ?thesis unfolding assigned_columns_def by (auto split: if_splits)
qed


lemma num_cols_member:
  assumes "(c, s) \<in> set X" and "dtype_of s = Dint64 \<or> dtype_of s = Dfloat64 \<or> dtype_of s = Dbool"
  shows "c \<in> set (num_cols X)"
proof -
  from assms(2) have "list_ex (\<lambda>sel. selects sel (dtype_of s)) [Sel_number, Sel_bool]"
    by auto
  with assms(1) have "(c, s) \<in> set (select_dtypes [Sel_number, Sel_bool] X)"
    by (simp add: select_dtypes_def)
  then show ?thesis unfolding num_cols_def columns_def by force
qed

subsection \<open>Skewness: evaluation and the case of no finite value\<close>

lemma sqrt_9: "sqrt 9 = 3"
  using real_sqrt_abs [of 3] by simp

lemma powr_36: "(36::real) powr (3 / 2) = 216"
proof -
  have "(36::real) powr (3 / 2) = (6 powr 2) powr (3 / 2)" by simp
  also have "\<dots> = 6 powr 3" by (simp only: powr_powr) simp
  finally show ?thesis by simp
qed

lemma nanskew_duration:
  "nanskew [Fin 8, Fin 0, Fin 2, Fin 2, Fin 3, Fin 3, Fin 3, Fin 3, Fin 3, Fin 3] = Fin (5 / 3)"
  by (simp add: nanskew_def dropna_def zero_out_fperr_def Let_def sqrt_9 powr_36)

lemma nanskew_rate:
  "nanskew [Fin 1, Fin 2, Fin 3, Fin 1, Fin 2, Fin 3, Fin 1, Fin 2, Fin 3] = Fin 0"
  by (simp add: nanskew_def dropna_def zero_out_fperr_def Let_def)

lemma nanskew_secure:
  "nanskew [Fin 1, Fin 0, Fin 1, Fin 0, Fin 1, Fin 0, Fin 1, Fin 0, Fin 1, Fin 0] = Fin 0"
  by (simp add: nanskew_def dropna_def zero_out_fperr_def Let_def)



subsection \<open>The example frame\<close>

lemma example_num_cols: "num_cols example_X = [''duration'', ''rate'', ''secure'']"
  by (simp add: example_X_def num_cols_def select_dtypes_def columns_def)

lemma example_obj_cols: "obj_cols example_X = [''proto'']"
  by (simp add: example_X_def obj_cols_def select_dtypes_def columns_def)

lemma example_skewed: "skewed example_X = [''duration'']"
  unfolding skewed_def example_num_cols
  by (simp add: example_X_def is_skewed_def getcol_def skew_threshold_def dropna_def
      nanskew_duration nanskew_rate nanskew_secure)

lemma example_regular: "regular example_X = [''rate'', ''secure'']"
  unfolding regular_def example_num_cols example_skewed by simp

lemma example_distinct: "distinct (columns example_X)"
  by (simp add: example_X_def columns_def)

lemma example_build: "build_transformer example_params example_X = Inr example_transformer"
  unfolding build_transformer_def example_skewed example_regular example_obj_cols
  by (simp add: example_transformer_def)

section \<open>Claims about \<^verbatim>\<open>_build_transformer\<close>\<close>

text \<open>
  C1. Column profiling is exhaustive and disjoint: for a training feature frame that
  \<^verbatim>\<open>_build_transformer\<close> accepts, the three name lists (skewed numeric, regular
  numeric, categorical) are pairwise disjoint, their union is the set of the frame's
  columns, and the columns that the composite transformation reads are all the columns of
  the frame, so that \<^verbatim>\<open>remainder="drop"\<close> removes none.
\<close>

theorem profile_partition:
  assumes "distinct (columns X)" and "build_transformer params X = Inr t"
  shows "set (skewed X) \<inter> set (regular X) = {}
       \<and> set (skewed X) \<inter> set (obj_cols X) = {}
       \<and> set (regular X) \<inter> set (obj_cols X) = {}
       \<and> set (skewed X) \<union> set (regular X) \<union> set (obj_cols X) = set (columns X)
       \<and> assigned_columns t = set (columns X)"
proof -
  have sr: "set (skewed X) \<inter> set (regular X) = {}" by (rule skewed_regular_disjoint)
  have u: "set (skewed X) \<union> set (regular X) = set (num_cols X)"
    by (rule skewed_regular_union)
  have no: "set (num_cols X) \<inter> set (obj_cols X) = {}"
    using assms(1) by (rule num_obj_disjoint)
  from u no have so: "set (skewed X) \<inter> set (obj_cols X) = {}" by blast
  from u no have ro: "set (regular X) \<inter> set (obj_cols X) = {}" by blast
  from u num_obj_union [of X]
  have cover: "set (skewed X) \<union> set (regular X) \<union> set (obj_cols X) = set (columns X)"
    by simp
  from build_transformer_assigned [OF assms(2)] cover
  have "assigned_columns t = set (columns X)" by simp
  with sr so ro cover show ?thesis by simp
qed

theorem profile_partition_witness:
  "distinct (columns example_X)
   \<and> build_transformer example_params example_X = Inr example_transformer
   \<and> set (skewed example_X) \<inter> set (regular example_X) = {}
   \<and> set (skewed example_X) \<inter> set (obj_cols example_X) = {}
   \<and> set (regular example_X) \<inter> set (obj_cols example_X) = {}
   \<and> set (skewed example_X) \<union> set (regular example_X) \<union> set (obj_cols example_X)
       = {''duration'', ''rate'', ''proto'', ''secure''}
   \<and> assigned_columns example_transformer = {''duration'', ''rate'', ''proto'', ''secure''}"
proof -
  have c: "set (columns example_X) = {''duration'', ''rate'', ''proto'', ''secure''}"
    by (simp add: example_X_def columns_def)
  from profile_partition [OF example_distinct example_build] example_distinct example_build c
  show ?thesis by simp
qed



text \<open>
  C9. Zero usable feature columns is a hard error: when the skewed, the regular and the
  categorical list are all empty, \<^verbatim>\<open>_build_transformer\<close> raises its
  "No valid feature columns" exception (wrapped by its own handler); when one of the lists
  is not empty it returns a transformation. The three lists are all empty exactly when
  the frame has no column, as after dropping the label from a frame that held only the
  label.
\<close>

theorem no_feature_columns_error:
  "(skewed X = [] \<and> regular X = [] \<and> obj_cols X = []
      \<longrightarrow> build_transformer params X = Inl no_feature_columns)
   \<and> (skewed X \<noteq> [] \<or> regular X \<noteq> [] \<or> obj_cols X \<noteq> []
      \<longrightarrow> (\<exists>t. build_transformer params X = Inr t))
   \<and> ((skewed X = [] \<and> regular X = [] \<and> obj_cols X = []) \<longleftrightarrow> X = [])"
proof -
  have a: "skewed X = [] \<and> regular X = [] \<and> obj_cols X = []
      \<longrightarrow> build_transformer params X = Inl no_feature_columns"
    by (simp add: build_transformer_def no_feature_columns_def)
  have b: "skewed X \<noteq> [] \<or> regular X \<noteq> [] \<or> obj_cols X \<noteq> []
      \<longrightarrow> (\<exists>t. build_transformer params X = Inr t)"
    by (auto simp: build_transformer_def Let_def)
  have "set (skewed X) \<union> set (regular X) \<union> set (obj_cols X) = set (columns X)"
    using skewed_regular_union [of X] num_obj_union [of X] by simp
  then have c: "(skewed X = [] \<and> regular X = [] \<and> obj_cols X = []) \<longleftrightarrow> X = []"
    by (auto simp: columns_def)
  from a b c show ?thesis by blast
qed

theorem no_feature_columns_error_witness:
  "skewed (drop_column ''Result'' [(''Result'', IntS [1, -1, 1])]) = []
   \<and> regular (drop_column ''Result'' [(''Result'', IntS [1, -1, 1])]) = []
   \<and> obj_cols (drop_column ''Result'' [(''Result'', IntS [1, -1, 1])]) = []
   \<and> build_transformer example_params (drop_column ''Result'' [(''Result'', IntS [1, -1, 1])])
       = Inl no_feature_columns
   \<and> skewed example_X \<noteq> []
   \<and> (\<exists>t. build_transformer example_params example_X = Inr t)"
proof -
  have e: "drop_column ''Result'' [(''Result'', IntS [1, -1, 1])] = []"
    by (simp add: drop_column_def)
  have s: "skewed example_X \<noteq> []" by (simp add: example_skewed)
  from no_feature_columns_error [of "[]" example_params]
       no_feature_columns_error [of example_X example_params] s
  show ?thesis unfolding e by blast
qed

lemma build_transformer_groups:
  assumes "build_transformer params X = Inr t"
  shows "transformers t =
        (if skewed X \<noteq> [] then [(''num_skewed'', numeric_skewed, skewed X)] else [])
      @ (if regular X \<noteq> [] then [(''num_regular'', numeric_knn params, regular X)] else [])
      @ (if obj_cols X \<noteq> [] then [(''cat'', categorical, obj_cols X)] else [])"
  using assms unfolding build_transformer_def Let_def by (auto split: if_splits)

lemma transformers_cases:
  assumes "build_transformer params X = Inr t" and "(n, p, cs) \<in> set (transformers t)"
  shows "(p = numeric_skewed \<and> cs = skewed X) \<or> (p = numeric_knn params \<and> cs = regular X)
       \<or> (p = categorical \<and> cs = obj_cols X)"
  using assms(2) unfolding build_transformer_groups [OF assms(1)]
  by (auto split: if_splits)

lemma transformers_skewed:
  assumes "build_transformer params X = Inr t" and "c \<in> set (skewed X)"
  shows "(''num_skewed'', numeric_skewed, skewed X) \<in> set (transformers t)"
  using assms(2) unfolding build_transformer_groups [OF assms(1)] by auto

lemma transformers_regular:
  assumes "build_transformer params X = Inr t" and "c \<in> set (regular X)"
  shows "(''num_regular'', numeric_knn params, regular X) \<in> set (transformers t)"
  using assms(2) unfolding build_transformer_groups [OF assms(1)] by auto

lemma numeric_skewed_steps:
  "(''scale'', StandardScaler) \<in> set numeric_skewed
   \<and> (''impute_mean'', SimpleImputer Mean) \<in> set numeric_skewed
   \<and> (\<forall>(m, e) \<in> set numeric_skewed. e \<noteq> SimpleImputer Most_frequent
         \<and> (\<forall>u b. e \<noteq> OneHotEncoder u b))"
  by (simp add: numeric_skewed_def)

lemma numeric_knn_steps:
  "(''scale'', StandardScaler) \<in> set (numeric_knn params)
   \<and> (''impute_knn'', KNNImputer params) \<in> set (numeric_knn params)
   \<and> (\<forall>(m, e) \<in> set (numeric_knn params). e \<noteq> SimpleImputer Most_frequent
         \<and> (\<forall>u b. e \<noteq> OneHotEncoder u b))"
  by (simp add: numeric_knn_def)

text \<open>
  C10. A feature column of boolean dtype is treated as numeric: it is in the numeric
  selection and not in the categorical one, it lands in the skewed or in the regular
  group, and every sub-pipeline of the composite transformation that reads it imputes
  (by mean or by nearest neighbours) and standard-scales, and holds neither the
  most-frequent imputer nor a one-hot encoder.
\<close>

theorem bool_column_is_numeric:
  assumes "distinct (columns X)" and "(c, BoolS bs) \<in> set X"
    and "build_transformer params X = Inr t"
  shows "c \<in> set (num_cols X) \<and> c \<notin> set (obj_cols X)
       \<and> (c \<in> set (skewed X) \<or> c \<in> set (regular X))
       \<and> (\<exists>(n, p, cs) \<in> set (transformers t). c \<in> set cs)
       \<and> (\<forall>(n, p, cs) \<in> set (transformers t). c \<in> set cs \<longrightarrow>
             (''scale'', StandardScaler) \<in> set p
           \<and> ((''impute_mean'', SimpleImputer Mean) \<in> set p
              \<or> (''impute_knn'', KNNImputer params) \<in> set p)
           \<and> (\<forall>(m, e) \<in> set p. e \<noteq> SimpleImputer Most_frequent
                 \<and> (\<forall>u b. e \<noteq> OneHotEncoder u b)))"
proof -
  have n: "c \<in> set (num_cols X)" using assms(2) by (rule num_cols_member) simp
  with num_obj_disjoint [OF assms(1)] have o: "c \<notin> set (obj_cols X)" by blast
  from n skewed_regular_union [of X]
  have sr: "c \<in> set (skewed X) \<or> c \<in> set (regular X)" by blast
  have ex: "\<exists>(n, p, cs) \<in> set (transformers t). c \<in> set cs"
    using sr transformers_skewed [OF assms(3)] transformers_regular [OF assms(3)] by blast
  have all: "\<forall>(n, p, cs) \<in> set (transformers t). c \<in> set cs \<longrightarrow>
             (''scale'', StandardScaler) \<in> set p
           \<and> ((''impute_mean'', SimpleImputer Mean) \<in> set p
              \<or> (''impute_knn'', KNNImputer params) \<in> set p)
           \<and> (\<forall>(m, e) \<in> set p. e \<noteq> SimpleImputer Most_frequent
                 \<and> (\<forall>u b. e \<noteq> OneHotEncoder u b))"
  proof (intro ballI, clarify)
    fix n p cs assume m: "(n, p, cs) \<in> set (transformers t)" and c: "c \<in> set cs"
    from transformers_cases [OF assms(3) m] c o
    have "p = numeric_skewed \<or> p = numeric_knn params" by blast
    then show "(''scale'', StandardScaler) \<in> set p
           \<and> ((''impute_mean'', SimpleImputer Mean) \<in> set p
              \<or> (''impute_knn'', KNNImputer params) \<in> set p)
           \<and> (\<forall>(m, e) \<in> set p. e \<noteq> SimpleImputer Most_frequent
                 \<and> (\<forall>u b. e \<noteq> OneHotEncoder u b))"
      using numeric_skewed_steps numeric_knn_steps [of params] by blast
  qed
  from n o sr ex all show ?thesis by blast
qed

theorem bool_column_is_numeric_witness:
  "distinct (columns example_X)
   \<and> (''secure'', BoolS [True, False, True, False, True, False, True, False, True, False])
        \<in> set example_X
   \<and> build_transformer example_params example_X = Inr example_transformer
   \<and> ''secure'' \<in> set (num_cols example_X) \<and> ''secure'' \<notin> set (obj_cols example_X)
   \<and> ''secure'' \<in> set (regular example_X)"
proof -
  have m: "(''secure'', BoolS [True, False, True, False, True, False, True, False, True, False])
        \<in> set example_X" by (simp add: example_X_def)
  from bool_column_is_numeric [OF example_distinct m example_build] example_distinct m
    example_build example_regular
  show ?thesis by simp
qed

lemma and_then_Inr_iff: "and_then m f = Inr y \<longleftrightarrow> (\<exists>x. m = Inr x \<and> f x = Inr y)"
  by (cases m) auto

lemma and_then_Inl_iff:
  "and_then m f = Inl e \<longleftrightarrow> m = Inl e \<or> (\<exists>x. m = Inr x \<and> f x = Inl e)"
  by (cases m) auto

lemma run_success:
  assumes "fst (run k cfg lib train_df test_df) = Inr a"
  shows "\<exists>y_train0 y_test0 preprocessor y_train y_test y_encoder fct X_train_t X_test_t.
      getcol train_df (TARGET_COLUMN k) = Some y_train0
    \<and> getcol test_df (TARGET_COLUMN k) = Some y_test0
    \<and> build_transformer (DATA_TRANSFORMATION_IMPUTER_PARAMS k)
         (drop_column (TARGET_COLUMN k) train_df) = Inr preprocessor
    \<and> encode_target (fst (normalize_labels y_train0 y_test0))
         (snd (normalize_labels y_train0 y_test0)) = Inr (y_train, y_test, y_encoder)
    \<and> fit lib preprocessor (drop_column (TARGET_COLUMN k) train_df) = Inr fct
    \<and> transform lib fct (drop_column (TARGET_COLUMN k) train_df) = Inr X_train_t
    \<and> transform lib fct (drop_column (TARGET_COLUMN k) test_df) = Inr X_test_t
    \<and> snd (run k cfg lib train_df test_df) =
        (case y_encoder of None \<Rightarrow> [] | Some enc \<Rightarrow> [(encoder_path, Saved_encoder enc)])
        @ [(transformed_train_file_path cfg, Saved_array X_train_t y_train),
           (transformed_test_file_path cfg, Saved_array X_test_t y_test),
           (transformed_object_file_path cfg, Saved_transformer fct),
           (preprocessor_path, Saved_transformer fct)]"
  using assms unfolding run_def Let_def
  by (auto split: option.splits sum.splits prod.splits simp: and_then_Inr_iff)


subsection \<open>Labels\<close>

lemma replace_dtype: "dtype_of (replace a b y) = dtype_of y"
  by (cases y) simp_all

lemma replace_numeric: "is_numeric_dtype (replace a b y) = is_numeric_dtype y"
  by (cases y) simp_all

lemma replace_cells:
  assumes "is_numeric_dtype y"
  shows "to_float (replace (- 1) 0 y)
         = map (\<lambda>v. if v = Fin (- 1) then Fin 0 else v) (to_float y)"
proof (cases y)
  case (IntS xs)
  have "\<And>x::int. (of_int x = (- 1 :: real)) = (x = - 1)"
    by (metis of_int_eq_iff of_int_minus of_int_1)
  then show ?thesis using IntS by simp
next
  case (FloatS xs)
  then show ?thesis by simp
next
  case (BoolS xs)
  then show ?thesis by simp
next
  case (ObjectS xs)
  with assms show ?thesis by simp
next
  case (CategoryS xs)
  with assms show ?thesis by simp
qed

lemma normalize_numeric:
  "is_numeric_dtype (fst (normalize_labels y_train y_test)) = is_numeric_dtype y_train"
  by (simp add: normalize_labels_def replace_numeric)

lemma encode_target_numeric:
  "is_numeric_dtype y_train \<Longrightarrow> encode_target y_train y_test = Inr (y_train, y_test, None)"
  by (simp add: encode_target_def is_binary_or_numeric_target_def)

lemma encode_target_non_numeric:
  "\<not> is_numeric_dtype y_train \<Longrightarrow>
     encode_target y_train y_test =
       (case encode_labels y_train y_test of
          Inl e \<Rightarrow> Inl e
        | Inr (tr, te, enc) \<Rightarrow> Inr (tr, te, Some enc))"
  by (simp add: encode_target_def)

lemma drop_column_getcol:
  "c \<noteq> t \<Longrightarrow> getcol (drop_column t X) c = getcol X c"
  unfolding getcol_def drop_column_def by (induction X) auto

lemma index_of_None: "index_of cls v = None \<longleftrightarrow> v \<notin> set cls"
  by (induction cls) auto

lemma index_of_Some: "index_of cls v = Some i \<Longrightarrow> i < length cls \<and> cls ! i = v"
  by (induction cls arbitrary: i) (auto split: if_splits)

lemma encode_total:
  "set vs \<subseteq> set cls \<Longrightarrow> \<exists>codes. encode cls vs = Inr codes"
proof (induction vs)
  case Nil
  then show ?case by simp
next
  case (Cons v vs)
  then obtain codes where c: "encode cls vs = Inr codes" by auto
  from Cons.prems have "v \<in> set cls" by simp
  then obtain i where "index_of cls v = Some i"
    using index_of_None [of cls v] by (cases "index_of cls v") auto
  with c show ?case by simp
qed

lemma encode_unseen:
  "\<exists>v \<in> set vs. v \<notin> set cls \<Longrightarrow>
     encode cls vs = Inl (ValueError ''y contains previously unseen labels'')"
proof (induction vs)
  case Nil
  then show ?case by simp
next
  case (Cons v vs)
  show ?case
  proof (cases "index_of cls v")
    case None
    then show ?thesis by simp
  next
    case (Some i)
    then have "v \<in> set cls" using index_of_None [of cls v] by auto
    with Cons.prems have "\<exists>v \<in> set vs. v \<notin> set cls" by auto
    with Cons.IH Some show ?thesis by simp
  qed
qed

lemma encode_codes:
  "encode cls vs = Inr codes \<Longrightarrow>
     length codes = length vs
     \<and> (\<forall>i < length vs. 0 \<le> codes ! i \<and> nat (codes ! i) < length cls
            \<and> cls ! nat (codes ! i) = vs ! i)"
proof (induction vs arbitrary: codes)
  case Nil
  then show ?case by simp
next
  case (Cons v vs)
  from Cons.prems obtain i rest where i: "index_of cls v = Some i"
    and r: "encode cls vs = Inr rest" and c: "codes = int i # rest"
    by (auto split: option.splits sum.splits)
  from Cons.IH [OF r] index_of_Some [OF i] c show ?case
    by (auto simp: nth_Cons split: nat.splits)
qed

lemma strings_of_PStr: "strings_of (map PStr xs) = xs"
  by (induction xs) auto

lemma strings_of_append: "strings_of (xs @ ys) = strings_of xs @ strings_of ys"
  by (induction xs rule: strings_of.induct) auto

lemma set_strings_of: "set (strings_of vs) = {s. PStr s \<in> set vs}"
  by (induction vs rule: strings_of.induct) auto

lemma object_cells:
  "\<not> is_numeric_dtype y \<Longrightarrow> v \<in> set (objects y) \<Longrightarrow> v = PNum NaN \<or> (\<exists>s. v = PStr s)"
  by (cases y) (auto split: option.splits)

lemma classes_set:
  assumes "\<not> is_numeric_dtype y"
  shows "set (classes (LabelEncoder_fit y)) = set (objects y)"
proof -
  have "\<And>v. v \<in> set (objects y) \<Longrightarrow> v = PNum NaN \<or> (\<exists>s. v = PStr s)"
    using assms by (rule object_cells)
  then show ?thesis
    unfolding LabelEncoder_fit_def by (auto simp: set_strings_of)
qed

lemma classes_sorted:
  "sorted (strings_of (classes (LabelEncoder_fit y)))
   \<and> distinct (classes (LabelEncoder_fit y))"
  unfolding LabelEncoder_fit_def
  by (auto simp: strings_of_append strings_of_PStr distinct_map inj_on_def)


subsection \<open>Evaluating a run on the example frames\<close>

lemmas profile_defs =
  build_transformer_def skewed_def regular_def obj_cols_def num_cols_def select_dtypes_def
  columns_def is_skewed_def getcol_def drop_column_def nanskew_def dropna_def

lemmas estimator_defs =
  fit_def transform_def as_matrix_def numeric_knn_def numeric_skewed_def categorical_def
  check_array_def check_shape_def check_n_features_def observed_def keep_def knn_fill_def
  mean_impute_def knn_impute_def standardize_def power_transform_def mode_impute_def
  onehot_encode_def
  row_at_def scaler_statistics_def scale_def mean_def mean_statistic_def fill_def
  most_frequent_def present_def categories_of_def fill_mode_def indicators_def
  has_unknown_def

lemmas label_defs =
  normalize_labels_def encode_target_def encode_labels_def is_binary_or_numeric_target_def
  LabelEncoder_fit_def LabelEncoder_transform_def

lemmas example_defs =
  example_constants_def example_config_def example_numerics_def example_params_def
  example_artifact_def

lemma example_run:
  "fst (run example_constants example_config example_numerics example_train example_test)
   = Inr example_artifact"
  by (simp add: run_def Let_def profile_defs estimator_defs label_defs example_defs
      example_train_def example_test_def)


lemma example_run_str:
  "fst (run example_constants example_config example_numerics example_train_str
         example_test_str) = Inr example_artifact"
  by (simp add: run_def Let_def profile_defs estimator_defs label_defs example_defs
      example_train_str_def example_test_str_def)

section \<open>Claims about the label column\<close>

text \<open>
  C4. Label sentinel remap: when the dtype of the (training) label column is numeric,
  every \<open>-1\<close> of the training labels and of the test labels becomes \<open>0\<close>, every other
  label value and the dtype stay, each column is rewritten from its own cells only, and
  the rewritten labels are the ones that a successful run stores (no encoding follows for
  a numeric dtype). \<open>[-1, 1, -1, 1]\<close> becomes \<open>[0, 1, 0, 1]\<close>. The columns other than
  the label reach the feature frame unchanged.
\<close>

theorem label_sentinel_remap:
  assumes "getcol train_df (TARGET_COLUMN k) = Some y_train"
    and "getcol test_df (TARGET_COLUMN k) = Some y_test"
    and "is_numeric_dtype y_train"
  shows "normalize_labels y_train y_test = (replace (- 1) 0 y_train, replace (- 1) 0 y_test)
     \<and> to_float (replace (- 1) 0 y_train)
         = map (\<lambda>v. if v = Fin (- 1) then Fin 0 else v) (to_float y_train)
     \<and> (is_numeric_dtype y_test \<longrightarrow>
          to_float (replace (- 1) 0 y_test)
          = map (\<lambda>v. if v = Fin (- 1) then Fin 0 else v) (to_float y_test))
     \<and> dtype_of (replace (- 1) 0 y_train) = dtype_of y_train
     \<and> dtype_of (replace (- 1) 0 y_test) = dtype_of y_test
     \<and> replace (- 1) 0 (IntS [- 1, 1, - 1, 1]) = IntS [0, 1, 0, 1]
     \<and> (\<forall>a. fst (run k cfg lib train_df test_df) = Inr a \<longrightarrow>
          map snd (saved_arrays (snd (run k cfg lib train_df test_df)))
          = [replace (- 1) 0 y_train, replace (- 1) 0 y_test])
     \<and> (\<forall>c. c \<noteq> TARGET_COLUMN k \<longrightarrow>
          getcol (drop_column (TARGET_COLUMN k) train_df) c = getcol train_df c
        \<and> getcol (drop_column (TARGET_COLUMN k) test_df) c = getcol test_df c)"
proof -
  have n: "normalize_labels y_train y_test = (replace (- 1) 0 y_train, replace (- 1) 0 y_test)"
    using assms(3) by (simp add: normalize_labels_def)
  have r: "\<forall>a. fst (run k cfg lib train_df test_df) = Inr a \<longrightarrow>
          map snd (saved_arrays (snd (run k cfg lib train_df test_df)))
          = [replace (- 1) 0 y_train, replace (- 1) 0 y_test]"
  proof (intro allI impI)
    fix a assume "fst (run k cfg lib train_df test_df) = Inr a"
    from run_success [OF this] assms(1,2) n obtain y1 y2 enc fct Xtr Xte where
      e: "encode_target (replace (- 1) 0 y_train) (replace (- 1) 0 y_test) = Inr (y1, y2, enc)"
      and w: "snd (run k cfg lib train_df test_df) =
        (case enc of None \<Rightarrow> [] | Some enc \<Rightarrow> [(encoder_path, Saved_encoder enc)])
        @ [(transformed_train_file_path cfg, Saved_array Xtr y1),
           (transformed_test_file_path cfg, Saved_array Xte y2),
           (transformed_object_file_path cfg, Saved_transformer fct),
           (preprocessor_path, Saved_transformer fct)]"
      by auto
    from assms(3) have "is_numeric_dtype (replace (- 1) 0 y_train)"
      by (simp add: replace_numeric)
    from encode_target_numeric [OF this] e
    have "y1 = replace (- 1) 0 y_train" "y2 = replace (- 1) 0 y_test" "enc = None" by auto
    with w show "map snd (saved_arrays (snd (run k cfg lib train_df test_df)))
          = [replace (- 1) 0 y_train, replace (- 1) 0 y_test]" by simp
  qed
  from n r replace_cells [OF assms(3)] replace_cells [of y_test]
  show ?thesis by (simp add: replace_dtype drop_column_getcol)
qed

theorem label_sentinel_remap_witness:
  "getcol example_train (TARGET_COLUMN example_constants) = Some (IntS [- 1, 1, - 1])
   \<and> getcol example_test (TARGET_COLUMN example_constants) = Some (IntS [1, - 1])
   \<and> is_numeric_dtype (IntS [- 1, 1, - 1])
   \<and> fst (run example_constants example_config example_numerics example_train example_test)
       = Inr example_artifact
   \<and> map snd (saved_arrays
         (snd (run example_constants example_config example_numerics example_train
                example_test)))
       = [IntS [0, 1, 0], IntS [1, 0]]"
proof -
  have a: "getcol example_train (TARGET_COLUMN example_constants) = Some (IntS [- 1, 1, - 1])"
    by (simp add: getcol_def example_train_def example_constants_def)
  have b: "getcol example_test (TARGET_COLUMN example_constants) = Some (IntS [1, - 1])"
    by (simp add: getcol_def example_test_def example_constants_def)
  have c: "is_numeric_dtype (IntS [- 1, 1, - 1])" by simp
  from label_sentinel_remap [OF a b c, of example_config example_numerics] example_run a b
  show ?thesis by simp
qed

text \<open>
  C5. Label encoding happens exactly when the training label column is non-numeric: for a
  numeric dtype the labels pass unchanged and no encoder exists; for a non-numeric dtype,
  with two or fewer distinct values or with more, the encoder is fitted on the training
  labels (its classes are sorted and distinct, the code of a label is its position among
  them), the test labels are coded with that same encoder, and a successful run has stored
  the encoder.
\<close>

theorem label_encoding_iff_non_numeric:
  "(is_numeric_dtype y_train \<longrightarrow> encode_target y_train y_test = Inr (y_train, y_test, None))
   \<and> (\<not> is_numeric_dtype y_train \<longrightarrow>
        encode_target y_train y_test =
          (case encode_labels y_train y_test of
             Inl e \<Rightarrow> Inl e
           | Inr (tr, te, enc) \<Rightarrow> Inr (tr, te, Some enc)))
   \<and> (\<forall>tr te y_encoder. encode_target y_train y_test = Inr (tr, te, y_encoder) \<longrightarrow>
        (y_encoder \<noteq> None \<longleftrightarrow> \<not> is_numeric_dtype y_train)
        \<and> (\<not> is_numeric_dtype y_train \<longrightarrow>
             y_encoder = Some (LabelEncoder_fit y_train)
           \<and> sorted (strings_of (classes (LabelEncoder_fit y_train)))
           \<and> distinct (classes (LabelEncoder_fit y_train))
           \<and> (\<exists>train_codes test_codes.
                 tr = IntS train_codes \<and> te = IntS test_codes
               \<and> encode (classes (LabelEncoder_fit y_train)) (objects y_train) = Inr train_codes
               \<and> encode (classes (LabelEncoder_fit y_train)) (objects y_test) = Inr test_codes
               \<and> (\<forall>i < length (objects y_train).
                     classes (LabelEncoder_fit y_train) ! nat (train_codes ! i)
                     = objects y_train ! i)
               \<and> (\<forall>i < length (objects y_test).
                     classes (LabelEncoder_fit y_train) ! nat (test_codes ! i)
                     = objects y_test ! i))))
   \<and> (\<forall>a y_test0. fst (run k cfg lib train_df test_df) = Inr a
          \<and> getcol train_df (TARGET_COLUMN k) = Some y_train
          \<and> getcol test_df (TARGET_COLUMN k) = Some y_test0 \<longrightarrow>
        saved_encoders (snd (run k cfg lib train_df test_df))
        = (if is_numeric_dtype y_train then [] else [LabelEncoder_fit y_train]))"
proof -
  have a: "is_numeric_dtype y_train \<longrightarrow>
      encode_target y_train y_test = Inr (y_train, y_test, None)"
    by (simp add: encode_target_numeric)
  have b: "\<not> is_numeric_dtype y_train \<longrightarrow>
        encode_target y_train y_test =
          (case encode_labels y_train y_test of
             Inl e \<Rightarrow> Inl e
           | Inr (tr, te, enc) \<Rightarrow> Inr (tr, te, Some enc))"
    by (simp add: encode_target_non_numeric)
  have c: "\<forall>tr te y_encoder. encode_target y_train y_test = Inr (tr, te, y_encoder) \<longrightarrow>
        (y_encoder \<noteq> None \<longleftrightarrow> \<not> is_numeric_dtype y_train)
        \<and> (\<not> is_numeric_dtype y_train \<longrightarrow>
             y_encoder = Some (LabelEncoder_fit y_train)
           \<and> sorted (strings_of (classes (LabelEncoder_fit y_train)))
           \<and> distinct (classes (LabelEncoder_fit y_train))
           \<and> (\<exists>train_codes test_codes.
                 tr = IntS train_codes \<and> te = IntS test_codes
               \<and> encode (classes (LabelEncoder_fit y_train)) (objects y_train) = Inr train_codes
               \<and> encode (classes (LabelEncoder_fit y_train)) (objects y_test) = Inr test_codes
               \<and> (\<forall>i < length (objects y_train).
                     classes (LabelEncoder_fit y_train) ! nat (train_codes ! i)
                     = objects y_train ! i)
               \<and> (\<forall>i < length (objects y_test).
                     classes (LabelEncoder_fit y_train) ! nat (test_codes ! i)
                     = objects y_test ! i)))"
  proof (intro allI impI)
    fix tr te y_encoder
    assume e: "encode_target y_train y_test = Inr (tr, te, y_encoder)"
    show "(y_encoder \<noteq> None \<longleftrightarrow> \<not> is_numeric_dtype y_train)
        \<and> (\<not> is_numeric_dtype y_train \<longrightarrow>
             y_encoder = Some (LabelEncoder_fit y_train)
           \<and> sorted (strings_of (classes (LabelEncoder_fit y_train)))
           \<and> distinct (classes (LabelEncoder_fit y_train))
           \<and> (\<exists>train_codes test_codes.
                 tr = IntS train_codes \<and> te = IntS test_codes
               \<and> encode (classes (LabelEncoder_fit y_train)) (objects y_train) = Inr train_codes
               \<and> encode (classes (LabelEncoder_fit y_train)) (objects y_test) = Inr test_codes
               \<and> (\<forall>i < length (objects y_train).
                     classes (LabelEncoder_fit y_train) ! nat (train_codes ! i)
                     = objects y_train ! i)
               \<and> (\<forall>i < length (objects y_test).
                     classes (LabelEncoder_fit y_train) ! nat (test_codes ! i)
                     = objects y_test ! i)))"
    proof (cases "is_numeric_dtype y_train")
      case True
      with e encode_target_numeric [OF True, of y_test] show ?thesis by simp
    next
      case False
      from e encode_target_non_numeric [OF False, of y_test]
      obtain enc where l: "encode_labels y_train y_test = Inr (tr, te, enc)"
        and y: "y_encoder = Some enc"
        by (auto split: sum.splits)
      from l obtain c1 c2 where
        c1: "encode (classes (LabelEncoder_fit y_train)) (objects y_train) = Inr c1"
        and c2: "encode (classes (LabelEncoder_fit y_train)) (objects y_test) = Inr c2"
        and t: "tr = IntS c1" "te = IntS c2" "enc = LabelEncoder_fit y_train"
        unfolding encode_labels_def LabelEncoder_transform_def Let_def
        by (auto split: sum.splits)
      from encode_codes [OF c1] encode_codes [OF c2] c1 c2 t y False classes_sorted [of y_train]
      show ?thesis by auto
    qed
  qed
  have d: "\<forall>a y_test0. fst (run k cfg lib train_df test_df) = Inr a
          \<and> getcol train_df (TARGET_COLUMN k) = Some y_train
          \<and> getcol test_df (TARGET_COLUMN k) = Some y_test0 \<longrightarrow>
        saved_encoders (snd (run k cfg lib train_df test_df))
        = (if is_numeric_dtype y_train then [] else [LabelEncoder_fit y_train])"
  proof (intro allI impI)
    fix a y_test0
    assume h: "fst (run k cfg lib train_df test_df) = Inr a
          \<and> getcol train_df (TARGET_COLUMN k) = Some y_train
          \<and> getcol test_df (TARGET_COLUMN k) = Some y_test0"
    define y1 where "y1 = fst (normalize_labels y_train y_test0)"
    define y2 where "y2 = snd (normalize_labels y_train y_test0)"
    from h run_success [of k cfg lib train_df test_df a] obtain tr te enc fct Xtr Xte where
      e: "encode_target y1 y2 = Inr (tr, te, enc)"
      and w: "snd (run k cfg lib train_df test_df) =
        (case enc of None \<Rightarrow> [] | Some enc \<Rightarrow> [(encoder_path, Saved_encoder enc)])
        @ [(transformed_train_file_path cfg, Saved_array Xtr tr),
           (transformed_test_file_path cfg, Saved_array Xte te),
           (transformed_object_file_path cfg, Saved_transformer fct),
           (preprocessor_path, Saved_transformer fct)]"
      unfolding y1_def y2_def by auto
    show "saved_encoders (snd (run k cfg lib train_df test_df))
        = (if is_numeric_dtype y_train then [] else [LabelEncoder_fit y_train])"
    proof (cases "is_numeric_dtype y_train")
      case True
      then have "is_numeric_dtype y1" by (simp add: y1_def normalize_numeric)
      from encode_target_numeric [OF this, of y2] e have "enc = None" by simp
      with w True show ?thesis by simp
    next
      case False
      then have y: "y1 = y_train" by (simp add: y1_def normalize_labels_def)
      from False y have "\<not> is_numeric_dtype y1" by simp
      from e encode_target_non_numeric [OF this, of y2]
      obtain en where l: "encode_labels y1 y2 = Inr (tr, te, en)" and s: "enc = Some en"
        by (auto split: sum.splits)
      from l have "en = LabelEncoder_fit y1"
        unfolding encode_labels_def Let_def by (auto split: sum.splits)
      with w s y False show ?thesis by simp
    qed
  qed
  from a b c d show ?thesis by blast
qed

theorem label_encoding_iff_non_numeric_witness:
  "is_numeric_dtype (IntS [0, 1, 0])
   \<and> encode_target (IntS [0, 1, 0]) (IntS [1, 0]) = Inr (IntS [0, 1, 0], IntS [1, 0], None)
   \<and> \<not> is_numeric_dtype (ObjectS [Some ''good'', Some ''bad'', Some ''good''])
   \<and> encode_target (ObjectS [Some ''good'', Some ''bad'', Some ''good''])
        (ObjectS [Some ''bad'', Some ''good''])
       = Inr (IntS [1, 0, 1], IntS [0, 1],
              Some (LabelEncoder_fit (ObjectS [Some ''good'', Some ''bad'', Some ''good''])))
   \<and> classes (LabelEncoder_fit (ObjectS [Some ''good'', Some ''bad'', Some ''good'']))
       = [PStr ''bad'', PStr ''good'']
   \<and> fst (run example_constants example_config example_numerics example_train_str
            example_test_str) = Inr example_artifact
   \<and> saved_encoders (snd (run example_constants example_config example_numerics
        example_train_str example_test_str))
       = [LabelEncoder_fit (ObjectS [Some ''good'', Some ''bad'', Some ''good''])]"
proof -
  have g1: "getcol example_train_str (TARGET_COLUMN example_constants)
            = Some (ObjectS [Some ''good'', Some ''bad'', Some ''good''])"
    by (simp add: getcol_def example_train_str_def example_constants_def)
  have g2: "getcol example_test_str (TARGET_COLUMN example_constants)
            = Some (ObjectS [Some ''bad'', Some ''good''])"
    by (simp add: getcol_def example_test_str_def example_constants_def)
  have c: "classes (LabelEncoder_fit (ObjectS [Some ''good'', Some ''bad'', Some ''good'']))
       = [PStr ''bad'', PStr ''good'']"
    by (simp add: LabelEncoder_fit_def)
  have e: "encode_labels (ObjectS [Some ''good'', Some ''bad'', Some ''good''])
        (ObjectS [Some ''bad'', Some ''good''])
      = Inr (IntS [1, 0, 1], IntS [0, 1],
             LabelEncoder_fit (ObjectS [Some ''good'', Some ''bad'', Some ''good'']))"
    unfolding encode_labels_def LabelEncoder_transform_def Let_def c by simp
  note T1 = label_encoding_iff_non_numeric [of "IntS [0, 1, 0]" "IntS [1, 0]"]
  note T2 = label_encoding_iff_non_numeric
    [of "ObjectS [Some ''good'', Some ''bad'', Some ''good'']"
        "ObjectS [Some ''bad'', Some ''good'']"
        example_constants example_config example_numerics example_train_str example_test_str]
  have n: "encode_target (IntS [0, 1, 0]) (IntS [1, 0]) = Inr (IntS [0, 1, 0], IntS [1, 0], None)"
    using T1 [THEN conjunct1] by simp
  have m: "encode_target (ObjectS [Some ''good'', Some ''bad'', Some ''good''])
        (ObjectS [Some ''bad'', Some ''good''])
       = Inr (IntS [1, 0, 1], IntS [0, 1],
              Some (LabelEncoder_fit (ObjectS [Some ''good'', Some ''bad'', Some ''good''])))"
    using T2 [THEN conjunct2, THEN conjunct1] e by simp
  have w: "saved_encoders (snd (run example_constants example_config example_numerics
        example_train_str example_test_str))
       = [LabelEncoder_fit (ObjectS [Some ''good'', Some ''bad'', Some ''good''])]"
    using T2 [THEN conjunct2, THEN conjunct2, THEN conjunct2, rule_format,
              of example_artifact "ObjectS [Some ''bad'', Some ''good'']"]
      example_run_str g1 g2 by simp
  from n m w c example_run_str show ?thesis by simp
qed

text \<open>
  C6. An unseen test label is a failure: when the training label column is non-numeric
  (the encoding path) and the test label column holds a value that does not occur among
  the training labels, encoding raises the \<^verbatim>\<open>ValueError\<close> of the label encoder, which
  leaves \<^verbatim>\<open>run\<close> wrapped in a \<^verbatim>\<open>NetworkSecurityException\<close>, before anything is
  written; when every test label occurs among the training labels, encoding succeeds.
\<close>

theorem unseen_test_label:
  assumes "\<not> is_numeric_dtype y_train"
  shows "((\<exists>v \<in> set (objects y_test). v \<notin> set (objects y_train)) \<longrightarrow>
            encode_target y_train y_test
            = Inl (ValueError ''y contains previously unseen labels''))
       \<and> ((\<forall>v \<in> set (objects y_test). v \<in> set (objects y_train)) \<longrightarrow>
            (\<exists>tr te enc. encode_target y_train y_test = Inr (tr, te, Some enc)))
       \<and> (\<forall>preprocessor.
            getcol train_df (TARGET_COLUMN k) = Some y_train
          \<and> getcol test_df (TARGET_COLUMN k) = Some y_test
          \<and> build_transformer (DATA_TRANSFORMATION_IMPUTER_PARAMS k)
               (drop_column (TARGET_COLUMN k) train_df) = Inr preprocessor
          \<and> (\<exists>v \<in> set (objects y_test). v \<notin> set (objects y_train)) \<longrightarrow>
            run k cfg lib train_df test_df
            = (Inl (NetworkSecurityException
                     (ValueError ''y contains previously unseen labels'')), []))"
proof -
  let ?enc = "LabelEncoder_fit y_train"
  have cls: "set (classes ?enc) = set (objects y_train)"
    using assms by (rule classes_set)
  then obtain c1 where c1: "encode (classes ?enc) (objects y_train) = Inr c1"
    using encode_total [of "objects y_train" "classes ?enc"] by auto
  have t: "encode_target y_train y_test =
       (case encode_labels y_train y_test of
          Inl e \<Rightarrow> Inl e
        | Inr (tr, te, enc) \<Rightarrow> Inr (tr, te, Some enc))"
    using assms by (rule encode_target_non_numeric)
  have a: "(\<exists>v \<in> set (objects y_test). v \<notin> set (objects y_train)) \<longrightarrow>
            encode_target y_train y_test
            = Inl (ValueError ''y contains previously unseen labels'')"
  proof
    assume "\<exists>v \<in> set (objects y_test). v \<notin> set (objects y_train)"
    with cls have "\<exists>v \<in> set (objects y_test). v \<notin> set (classes ?enc)" by simp
    from encode_unseen [OF this] c1
    have "encode_labels y_train y_test
          = Inl (ValueError ''y contains previously unseen labels'')"
      unfolding encode_labels_def LabelEncoder_transform_def Let_def by simp
    with t show "encode_target y_train y_test
            = Inl (ValueError ''y contains previously unseen labels'')" by simp
  qed
  have b: "(\<forall>v \<in> set (objects y_test). v \<in> set (objects y_train)) \<longrightarrow>
            (\<exists>tr te enc. encode_target y_train y_test = Inr (tr, te, Some enc))"
  proof
    assume "\<forall>v \<in> set (objects y_test). v \<in> set (objects y_train)"
    with cls have "set (objects y_test) \<subseteq> set (classes ?enc)" by auto
    from encode_total [OF this] obtain c2
      where "encode (classes ?enc) (objects y_test) = Inr c2" by auto
    with c1 have "encode_labels y_train y_test = Inr (IntS c1, IntS c2, ?enc)"
      unfolding encode_labels_def LabelEncoder_transform_def Let_def by simp
    with t show "\<exists>tr te enc. encode_target y_train y_test = Inr (tr, te, Some enc)"
      by simp
  qed
  have n: "normalize_labels y_train y_test = (y_train, y_test)"
    using assms by (simp add: normalize_labels_def)
  have c: "\<forall>preprocessor.
            getcol train_df (TARGET_COLUMN k) = Some y_train
          \<and> getcol test_df (TARGET_COLUMN k) = Some y_test
          \<and> build_transformer (DATA_TRANSFORMATION_IMPUTER_PARAMS k)
               (drop_column (TARGET_COLUMN k) train_df) = Inr preprocessor
          \<and> (\<exists>v \<in> set (objects y_test). v \<notin> set (objects y_train)) \<longrightarrow>
            run k cfg lib train_df test_df
            = (Inl (NetworkSecurityException
                     (ValueError ''y contains previously unseen labels'')), [])"
  proof (intro allI impI)
    fix preprocessor
    assume h: "getcol train_df (TARGET_COLUMN k) = Some y_train
          \<and> getcol test_df (TARGET_COLUMN k) = Some y_test
          \<and> build_transformer (DATA_TRANSFORMATION_IMPUTER_PARAMS k)
               (drop_column (TARGET_COLUMN k) train_df) = Inr preprocessor
          \<and> (\<exists>v \<in> set (objects y_test). v \<notin> set (objects y_train))"
    with a have e: "encode_target y_train y_test
            = Inl (ValueError ''y contains previously unseen labels'')" by blast
    from h n e show "run k cfg lib train_df test_df
            = (Inl (NetworkSecurityException
                     (ValueError ''y contains previously unseen labels'')), [])"
      unfolding run_def Let_def by simp
  qed
  from a b c show ?thesis by blast
qed

lemma example_build_str:
  "build_transformer (DATA_TRANSFORMATION_IMPUTER_PARAMS example_constants)
     (drop_column (TARGET_COLUMN example_constants) example_train_str)
   = Inr \<lparr>transformers =
            [(''num_regular'', numeric_knn example_params, [''rate'']),
             (''cat'', categorical, [''proto''])],
          remainder = Drop, sparse_threshold = 1\<rparr>"
  by (simp add: profile_defs example_train_str_def example_constants_def Let_def)

theorem unseen_test_label_witness:
  "\<not> is_numeric_dtype (ObjectS [Some ''good'', Some ''bad'', Some ''good''])
   \<and> PStr ''ugly'' \<in> set (objects (ObjectS [Some ''bad'', Some ''ugly'']))
   \<and> PStr ''ugly'' \<notin> set (objects (ObjectS [Some ''good'', Some ''bad'', Some ''good'']))
   \<and> run example_constants example_config example_numerics example_train_str
        example_test_unseen
       = (Inl (NetworkSecurityException
                (ValueError ''y contains previously unseen labels'')), [])
   \<and> (\<exists>tr te enc. encode_target (ObjectS [Some ''good'', Some ''bad'', Some ''good''])
         (ObjectS [Some ''bad'', Some ''good'']) = Inr (tr, te, Some enc))"
proof -
  have nn: "\<not> is_numeric_dtype (ObjectS [Some ''good'', Some ''bad'', Some ''good''])"
    by simp
  have g1: "getcol example_train_str (TARGET_COLUMN example_constants)
            = Some (ObjectS [Some ''good'', Some ''bad'', Some ''good''])"
    by (simp add: getcol_def example_train_str_def example_constants_def)
  have g2: "getcol example_test_unseen (TARGET_COLUMN example_constants)
            = Some (ObjectS [Some ''bad'', Some ''ugly''])"
    by (simp add: getcol_def example_test_unseen_def example_constants_def)
  have u: "\<exists>v \<in> set (objects (ObjectS [Some ''bad'', Some ''ugly''])).
             v \<notin> set (objects (ObjectS [Some ''good'', Some ''bad'', Some ''good'']))"
    by simp
  have s: "\<forall>v \<in> set (objects (ObjectS [Some ''bad'', Some ''good''])).
             v \<in> set (objects (ObjectS [Some ''good'', Some ''bad'', Some ''good'']))"
    by simp
  note T = unseen_test_label [OF nn, of "ObjectS [Some ''bad'', Some ''ugly'']"
      example_train_str example_constants example_test_unseen example_config
      example_numerics]
  have r: "run example_constants example_config example_numerics example_train_str
        example_test_unseen
       = (Inl (NetworkSecurityException
                (ValueError ''y contains previously unseen labels'')), [])"
    using T [THEN conjunct2, THEN conjunct2, THEN spec, THEN mp, OF conjI, OF g1 conjI,
             OF g2 conjI, OF example_build_str u] .
  have e: "\<exists>tr te enc. encode_target (ObjectS [Some ''good'', Some ''bad'', Some ''good''])
         (ObjectS [Some ''bad'', Some ''good'']) = Inr (tr, te, Some enc)"
    using unseen_test_label [OF nn, of "ObjectS [Some ''bad'', Some ''good'']",
        THEN conjunct2, THEN conjunct1, THEN mp, OF s] .
  from r e show ?thesis by simp
qed



section \<open>Claims about fitting\<close>



end
